theory Spec2Isabelle
  imports Main
begin

section \<open>Host strings\<close>

text \<open>
  The plugin works on Unreal's \<open>FString\<close>. Three operations of that type decide
  branches of the code below and are part of the engine, not of the plugin:
  \<open>operator==\<close> and \<open>StartsWith\<close> (with its default search case) compare without regard
  to the case of ASCII letters, and \<open>FString::Printf\<close> with \<open>%d\<close> prints a decimal number.
\<close>

definition ToLower :: "char \<Rightarrow> char" where
  "ToLower c =
     (case map_of (zip ''ABCDEFGHIJKLMNOPQRSTUVWXYZ'' ''abcdefghijklmnopqrstuvwxyz'') c of
        Some l \<Rightarrow> l
      | None \<Rightarrow> c)"

definition FStringEq :: "string \<Rightarrow> string \<Rightarrow> bool" where
  \<comment> \<open>\<open>A == B\<close> on two \<open>FString\<close>s (also the key equality of \<open>TSet<FString>\<close> and
      \<open>TMap<FString, _>\<close>).\<close>
  "FStringEq a b = (map ToLower a = map ToLower b)"

definition StartsWith :: "string \<Rightarrow> string \<Rightarrow> bool" where
  \<comment> \<open>\<open>S.StartsWith(TEXT(P))\<close>; an empty prefix never matches.\<close>
  "StartsWith s p = (p \<noteq> [] \<and> FStringEq (take (length p) s) p)"

function ToDecimal :: "nat \<Rightarrow> string" where
  "ToDecimal n =
     (if n < 10 then [char_of (48 + n)]
      else ToDecimal (n div 10) @ [char_of (48 + n mod 10)])"
  by pat_completeness auto
termination
  by (relation "measure id") auto

declare ToDecimal.simps [simp del]

section \<open>JSON documents\<close>

text \<open>
  \<open>FJsonObject\<close> keeps its fields in a map from names to values; setting a field that is
  already there replaces its value in place, a new field goes to the end.
\<close>

datatype json =
    JNull
  | JString string
  | JNumber int
  | JBool bool
  | JArray "json list"
  | JObject "(string \<times> json) list"

type_synonym json_object = "(string \<times> json) list"

fun SetField :: "string \<Rightarrow> json \<Rightarrow> json_object \<Rightarrow> json_object" where
  "SetField k v [] = [(k, v)]"
| "SetField k v ((k', v') # kvs) =
     (if k' = k then (k, v) # kvs else (k', v') # SetField k v kvs)"

definition SetStringField :: "string \<Rightarrow> string \<Rightarrow> json_object \<Rightarrow> json_object" where
  "SetStringField k s obj = SetField k (JString s) obj"

definition SetNumberField :: "string \<Rightarrow> int \<Rightarrow> json_object \<Rightarrow> json_object" where
  "SetNumberField k n obj = SetField k (JNumber n) obj"

definition SetBoolField :: "string \<Rightarrow> bool \<Rightarrow> json_object \<Rightarrow> json_object" where
  "SetBoolField k b obj = SetField k (JBool b) obj"

definition SetArrayField :: "string \<Rightarrow> json list \<Rightarrow> json_object \<Rightarrow> json_object" where
  "SetArrayField k xs obj = SetField k (JArray xs) obj"

definition SetObjectField :: "string \<Rightarrow> json_object option \<Rightarrow> json_object \<Rightarrow> json_object" where
  \<comment> \<open>A null object pointer is stored as the JSON null value.\<close>
  "SetObjectField k x obj =
     SetField k (case x of Some fields \<Rightarrow> JObject fields | None \<Rightarrow> JNull) obj"

definition GetField :: "string \<Rightarrow> json_object \<Rightarrow> json option" where
  "GetField k obj = map_of obj k"

definition FieldNames :: "json_object \<Rightarrow> string list" where
  "FieldNames obj = map fst obj"

definition Restrict :: "string list \<Rightarrow> json_object \<Rightarrow> json_object" where
  \<comment> \<open>The fields of a document whose names are in a given list, in the document's order.\<close>
  "Restrict ks obj = filter (\<lambda>kv. fst kv \<in> set ks) obj"

section \<open>The graph model, as the host stores it\<close>

text \<open>
  Objects of the host are reached through pointers; a pointer is an address or null
  (\<open>None\<close>). Nodes are rewritten in place by the redirect operation and read again by
  later operations, so they live in a store.
\<close>

type_synonym addr = nat

record uclass =
  ClassName :: string
  ClassPathName :: string

record ufunction =
  FunctionName :: string
  OwnerClass :: "uclass option"
  FunctionIsPure :: bool

text \<open>A pin reached through another pin's \<open>LinkedTo\<close>: its owning node and its name.\<close>

record linked_pin =
  OwningNode :: "addr option"
  LinkedPinName :: string

datatype EEdGraphPinDirection = EGPD_Input | EGPD_Output

record pin =
  PinName :: string
  Direction :: EEdGraphPinDirection
  PinCategory :: string
  PinSubCategoryObject :: "string option"
  IsArray :: bool
  bIsReference :: bool
  bIsConst :: bool
  DefaultValue :: string
  DefaultObject :: "string option"
  DefaultTextValue :: string
  LinkedTo :: "linked_pin option list"

text \<open>
  The node classes the serializer tells apart with \<open>Cast\<close>, each with what the code reads
  from it: the resolved target function and purity of a call node, the member name and
  parent class of an event, a variable or action name, the macro graph's name.
\<close>

datatype k2node =
    K2Node_CallFunction "ufunction option" bool
  | K2Node_Event string "uclass option"
  | K2Node_VariableGet string
  | K2Node_VariableSet string
  | K2Node_InputAction string
  | K2Node_Self
  | K2Node_FunctionEntry
  | K2Node_FunctionResult
  | K2Node_MacroInstance "string option"
  | K2Node_Other

record node =
  NodeGuid :: string
  NodeClassName :: string
  NodeTitle :: string
  NodePosX :: int
  NodePosY :: int
  NodeComment :: string
  bCommentBubbleVisible :: bool
  NodeKind :: k2node
  Pins :: "pin option list"

record graph =
  GraphName :: string
  GraphClassName :: string
  Nodes :: "addr option list"

record blueprint =
  BlueprintName :: string
  BlueprintPathName :: string
  PackageName :: string
  ParentClass :: "uclass option"
  AllGraphs :: "addr option list"
  FunctionGraphs :: "addr option list"

text \<open>
  Calls into the host that change nothing this model reads back are kept as a log.
\<close>

datatype host_event =
    NodeModify addr
  | BlueprintModify addr
  | RefreshAllNodes addr
  | MarkBlueprintAsModified addr

text \<open>
  The host: asset loading and reflection (read only), the asset registry, the three
  object stores, the event log, the clock as the two renderings the code asks for, and
  the file system under the export directory.
\<close>

record host =
  LoadObject :: "string \<Rightarrow> addr option"
  FindBlueprint :: "string \<Rightarrow> addr option"
  FindBlueprints :: "string \<Rightarrow> string list"
  ResolveParentClassForBlueprint :: "string \<Rightarrow> uclass option"
  FindObject :: "string \<Rightarrow> uclass option"
  LoadClass :: "string \<Rightarrow> uclass option"
  FindFunctionByName :: "uclass \<Rightarrow> string \<Rightarrow> ufunction option"
  GetDependencies :: "string \<Rightarrow> string list"
  GetAssetByObjectPath :: "string \<Rightarrow> string option"
  BlueprintStore :: "addr \<Rightarrow> blueprint"
  GraphStore :: "addr \<Rightarrow> graph"
  NodeStore :: "addr \<Rightarrow> node"
  Events :: "host_event list"
  NowStamp :: string
  NowString :: string
  ProjectSavedDir :: string
  DirectoryExists :: "string \<Rightarrow> bool"
  DirectoryCreatable :: "string \<Rightarrow> bool"
  FileWritable :: "string \<Rightarrow> bool"
  Files :: "(string \<times> json_object) list"

section \<open>The serializer of the monolithic dispatcher\<close>

text \<open>The loop over \<open>Pin->LinkedTo\<close> in \<open>SerializePin\<close>.\<close>

fun SerializePin_connections :: "host \<Rightarrow> linked_pin option list \<Rightarrow> json list \<Rightarrow> json list" where
  "SerializePin_connections h [] ConnectionsArray = ConnectionsArray"
| "SerializePin_connections h (LinkedPin # rest) ConnectionsArray =
     (case LinkedPin of
        None \<Rightarrow> SerializePin_connections h rest ConnectionsArray
      | Some L \<Rightarrow>
          (case OwningNode L of
             None \<Rightarrow> SerializePin_connections h rest ConnectionsArray
           | Some n \<Rightarrow>
               (let ConnectionJson = [];
                    ConnectionJson = SetStringField ''node_guid'' (NodeGuid (NodeStore h n)) ConnectionJson;
                    ConnectionJson = SetStringField ''pin_name'' (LinkedPinName L) ConnectionJson
                in SerializePin_connections h rest (ConnectionsArray @ [JObject ConnectionJson]))))"

definition SerializePin :: "host \<Rightarrow> pin option \<Rightarrow> bool \<Rightarrow> json_object option" where
  "SerializePin h Pin bIncludeConnections =
     (case Pin of
        None \<Rightarrow> None
      | Some P \<Rightarrow>
          (let PinJson = [];
               PinJson = SetStringField ''name'' (PinName P) PinJson;
               PinJson = SetStringField ''direction''
                           (if Direction P = EGPD_Input then ''Input'' else ''Output'') PinJson;
               PinJson = SetStringField ''category'' (PinCategory P) PinJson;
               PinJson = (case PinSubCategoryObject P of
                            Some sub \<Rightarrow> SetStringField ''subcategory'' sub PinJson
                          | None \<Rightarrow> PinJson);
               PinJson = SetBoolField ''is_array'' (IsArray P) PinJson;
               PinJson = SetBoolField ''is_reference'' (bIsReference P) PinJson;
               PinJson = SetBoolField ''is_const'' (bIsConst P) PinJson;
               PinJson = (if DefaultValue P \<noteq> []
                          then SetStringField ''default_value'' (DefaultValue P) PinJson
                          else PinJson);
               PinJson = (case DefaultObject P of
                            Some path \<Rightarrow> SetStringField ''default_object'' path PinJson
                          | None \<Rightarrow> PinJson);
               PinJson = (if DefaultTextValue P \<noteq> []
                          then SetStringField ''default_text'' (DefaultTextValue P) PinJson
                          else PinJson);
               PinJson = (if bIncludeConnections \<and> 0 < length (LinkedTo P)
                          then SetArrayField ''connections''
                                 (SerializePin_connections h (LinkedTo P) []) PinJson
                          else PinJson)
           in Some PinJson))"

text \<open>The loop over \<open>Node->Pins\<close> in \<open>SerializeNode\<close>, with its two arrays.\<close>

fun SerializeNode_pins ::
  "host \<Rightarrow> pin option list \<Rightarrow> json list \<times> json list \<Rightarrow> json list \<times> json list" where
  "SerializeNode_pins h [] arrays = arrays"
| "SerializeNode_pins h (Pin # rest) (InputPinsArray, OutputPinsArray) =
     (case Pin of
        None \<Rightarrow> SerializeNode_pins h rest (InputPinsArray, OutputPinsArray)
      | Some P \<Rightarrow>
          (case SerializePin h (Some P) True of
             None \<Rightarrow> SerializeNode_pins h rest (InputPinsArray, OutputPinsArray)
           | Some PinJson \<Rightarrow>
               if Direction P = EGPD_Input
               then SerializeNode_pins h rest (InputPinsArray @ [JObject PinJson], OutputPinsArray)
               else SerializeNode_pins h rest (InputPinsArray, OutputPinsArray @ [JObject PinJson])))"

text \<open>The chain of casts in \<open>SerializeNode\<close> that adds the fields of the node's kind.\<close>

fun SerializeNode_kind :: "k2node \<Rightarrow> json_object \<Rightarrow> json_object" where
  "SerializeNode_kind (K2Node_CallFunction TargetFunction IsNodePure) NodeJson =
     (let NodeJson = SetStringField ''node_type'' ''CallFunction'' NodeJson;
          NodeJson =
            (case TargetFunction of
               None \<Rightarrow> NodeJson
             | Some Function \<Rightarrow>
                 (let NodeJson = SetStringField ''function_name'' (FunctionName Function) NodeJson
                  in case OwnerClass Function of
                       None \<Rightarrow> NodeJson
                     | Some Owner \<Rightarrow>
                         SetStringField ''function_class_path'' (ClassPathName Owner)
                           (SetStringField ''function_class'' (ClassName Owner) NodeJson)))
      in SetBoolField ''is_pure'' IsNodePure NodeJson)"
| "SerializeNode_kind (K2Node_Event MemberName MemberParentClass) NodeJson =
     (let NodeJson = SetStringField ''node_type'' ''Event'' NodeJson;
          NodeJson = SetStringField ''event_name'' MemberName NodeJson
      in case MemberParentClass of
           None \<Rightarrow> NodeJson
         | Some C \<Rightarrow> SetStringField ''event_class'' (ClassName C) NodeJson)"
| "SerializeNode_kind (K2Node_VariableGet MemberName) NodeJson =
     SetStringField ''variable_name'' MemberName
       (SetStringField ''node_type'' ''VariableGet'' NodeJson)"
| "SerializeNode_kind (K2Node_VariableSet MemberName) NodeJson =
     SetStringField ''variable_name'' MemberName
       (SetStringField ''node_type'' ''VariableSet'' NodeJson)"
| "SerializeNode_kind (K2Node_InputAction InputActionName) NodeJson =
     SetStringField ''action_name'' InputActionName
       (SetStringField ''node_type'' ''InputAction'' NodeJson)"
| "SerializeNode_kind K2Node_Self NodeJson = SetStringField ''node_type'' ''Self'' NodeJson"
| "SerializeNode_kind K2Node_FunctionEntry NodeJson =
     SetStringField ''node_type'' ''FunctionEntry'' NodeJson"
| "SerializeNode_kind K2Node_FunctionResult NodeJson =
     SetStringField ''node_type'' ''FunctionResult'' NodeJson"
| "SerializeNode_kind (K2Node_MacroInstance MacroGraph) NodeJson =
     (let NodeJson = SetStringField ''node_type'' ''MacroInstance'' NodeJson
      in case MacroGraph of
           None \<Rightarrow> NodeJson
         | Some MacroName \<Rightarrow> SetStringField ''macro_name'' MacroName NodeJson)"
| "SerializeNode_kind K2Node_Other NodeJson = SetStringField ''node_type'' ''Other'' NodeJson"

definition SerializeNode :: "host \<Rightarrow> addr option \<Rightarrow> json_object option" where
  "SerializeNode h Node =
     (case Node of
        None \<Rightarrow> None
      | Some a \<Rightarrow>
          (let N = NodeStore h a;
               NodeJson = [];
               NodeJson = SetStringField ''guid'' (NodeGuid N) NodeJson;
               NodeJson = SetStringField ''class'' (NodeClassName N) NodeJson;
               NodeJson = SetStringField ''title'' (NodeTitle N) NodeJson;
               NodeJson = SetNumberField ''pos_x'' (NodePosX N) NodeJson;
               NodeJson = SetNumberField ''pos_y'' (NodePosY N) NodeJson;
               NodeJson = SetStringField ''comment'' (NodeComment N) NodeJson;
               NodeJson = SetBoolField ''comment_bubble_visible'' (bCommentBubbleVisible N) NodeJson;
               NodeJson = SerializeNode_kind (NodeKind N) NodeJson;
               (InputPinsArray, OutputPinsArray) = SerializeNode_pins h (Pins N) ([], []);
               NodeJson = SetArrayField ''input_pins'' InputPinsArray NodeJson;
               NodeJson = SetArrayField ''output_pins'' OutputPinsArray NodeJson
           in Some NodeJson))"

text \<open>The loop over \<open>Graph->Nodes\<close> in \<open>SerializeGraph\<close>.\<close>

fun SerializeGraph_nodes :: "host \<Rightarrow> addr option list \<Rightarrow> json list \<Rightarrow> json list" where
  "SerializeGraph_nodes h [] NodesArray = NodesArray"
| "SerializeGraph_nodes h (Node # rest) NodesArray =
     (case Node of
        None \<Rightarrow> SerializeGraph_nodes h rest NodesArray
      | Some a \<Rightarrow>
          (case SerializeNode h (Some a) of
             None \<Rightarrow> SerializeGraph_nodes h rest NodesArray
           | Some NodeJson \<Rightarrow> SerializeGraph_nodes h rest (NodesArray @ [JObject NodeJson])))"

definition SerializeGraph :: "host \<Rightarrow> addr option \<Rightarrow> bool \<Rightarrow> json_object option" where
  "SerializeGraph h Graph bIncludeDefaults =
     (case Graph of
        None \<Rightarrow> None
      | Some g \<Rightarrow>
          (let G = GraphStore h g;
               GraphJson = [];
               GraphJson = SetStringField ''name'' (GraphName G) GraphJson;
               GraphJson = SetStringField ''class'' (GraphClassName G) GraphJson;
               GraphJson = SetNumberField ''node_count'' (int (length (Nodes G))) GraphJson;
               NodesArray = SerializeGraph_nodes h (Nodes G) [];
               GraphJson = SetArrayField ''nodes'' NodesArray GraphJson
           in Some GraphJson))"

section \<open>The serializer of the delete command\<close>

definition Delete_SerializePin :: "host \<Rightarrow> pin option \<Rightarrow> bool \<Rightarrow> json_object option" where
  "Delete_SerializePin h Pin bIncludeConnections =
     (case Pin of
        None \<Rightarrow> None
      | Some P \<Rightarrow>
          (let PinJson = [];
               PinJson = SetStringField ''name'' (PinName P) PinJson;
               PinJson = SetStringField ''direction''
                           (if Direction P = EGPD_Input then ''Input'' else ''Output'') PinJson;
               PinJson = SetStringField ''category'' (PinCategory P) PinJson;
               PinJson = (case PinSubCategoryObject P of
                            Some sub \<Rightarrow> SetStringField ''subcategory'' sub PinJson
                          | None \<Rightarrow> PinJson);
               PinJson = (if DefaultValue P \<noteq> []
                          then SetStringField ''default_value'' (DefaultValue P) PinJson
                          else PinJson);
               PinJson = (if bIncludeConnections \<and> 0 < length (LinkedTo P)
                          then SetArrayField ''connections''
                                 (SerializePin_connections h (LinkedTo P) []) PinJson
                          else PinJson)
           in Some PinJson))"

fun Delete_SerializeNode_pins :: "host \<Rightarrow> pin option list \<Rightarrow> json list \<Rightarrow> json list" where
  "Delete_SerializeNode_pins h [] PinsArray = PinsArray"
| "Delete_SerializeNode_pins h (Pin # rest) PinsArray =
     (case Pin of
        None \<Rightarrow> Delete_SerializeNode_pins h rest PinsArray
      | Some P \<Rightarrow>
          (case Delete_SerializePin h (Some P) True of
             None \<Rightarrow> Delete_SerializeNode_pins h rest PinsArray
           | Some PinJson \<Rightarrow> Delete_SerializeNode_pins h rest (PinsArray @ [JObject PinJson])))"

definition Delete_SerializeNode :: "host \<Rightarrow> addr option \<Rightarrow> json_object option" where
  "Delete_SerializeNode h Node =
     (case Node of
        None \<Rightarrow> None
      | Some a \<Rightarrow>
          (let N = NodeStore h a;
               NodeJson = [];
               NodeJson = SetStringField ''guid'' (NodeGuid N) NodeJson;
               NodeJson = SetStringField ''class'' (NodeClassName N) NodeJson;
               NodeJson = SetStringField ''title'' (NodeTitle N) NodeJson;
               NodeJson = SetNumberField ''pos_x'' (NodePosX N) NodeJson;
               NodeJson = SetNumberField ''pos_y'' (NodePosY N) NodeJson;
               PinsArray = Delete_SerializeNode_pins h (Pins N) [];
               NodeJson = SetArrayField ''pins'' PinsArray NodeJson
           in Some NodeJson))"

fun Delete_SerializeGraph_nodes :: "host \<Rightarrow> addr option list \<Rightarrow> json list \<Rightarrow> json list" where
  "Delete_SerializeGraph_nodes h [] NodesArray = NodesArray"
| "Delete_SerializeGraph_nodes h (Node # rest) NodesArray =
     (case Node of
        None \<Rightarrow> Delete_SerializeGraph_nodes h rest NodesArray
      | Some a \<Rightarrow>
          (case Delete_SerializeNode h (Some a) of
             None \<Rightarrow> Delete_SerializeGraph_nodes h rest NodesArray
           | Some NodeJson \<Rightarrow>
               Delete_SerializeGraph_nodes h rest (NodesArray @ [JObject NodeJson])))"

definition Delete_SerializeGraph :: "host \<Rightarrow> addr option \<Rightarrow> bool \<Rightarrow> json_object option" where
  "Delete_SerializeGraph h Graph bIncludeDefaults =
     (case Graph of
        None \<Rightarrow> None
      | Some g \<Rightarrow>
          (let G = GraphStore h g;
               GraphJson = [];
               GraphJson = SetStringField ''name'' (GraphName G) GraphJson;
               GraphJson = SetStringField ''class'' (GraphClassName G) GraphJson;
               GraphJson = SetNumberField ''node_count'' (int (length (Nodes G))) GraphJson;
               NodesArray = Delete_SerializeGraph_nodes h (Nodes G) [];
               GraphJson = SetArrayField ''nodes'' NodesArray GraphJson
           in Some GraphJson))"

section \<open>Requests, failure responses, loading the subject, writing files\<close>

text \<open>
  A request as the handlers read it: what \<open>TryGetStringField\<close> and \<open>TryGetBoolField\<close>
  find under each name. A per-operation command first parses its parameter text; a text
  that does not parse is \<open>None\<close>. A command's returned text is the document it
  serializes.
\<close>

record params =
  StringFields :: "string \<Rightarrow> string option"
  BoolFields :: "string \<Rightarrow> bool option"

definition TryGetStringField :: "params \<Rightarrow> string \<Rightarrow> string option" where
  "TryGetStringField Params k = StringFields Params k"

definition TryGetBoolField :: "params \<Rightarrow> string \<Rightarrow> bool \<Rightarrow> bool" where
  \<comment> \<open>The variable keeps its initial value when the field is missing.\<close>
  "TryGetBoolField Params k initial = (case BoolFields Params k of Some b \<Rightarrow> b | None \<Rightarrow> initial)"

text \<open>\<open>CreateErrorResponse\<close>, the same text in every per-operation command.\<close>

definition CreateErrorResponse :: "string \<Rightarrow> json_object" where
  "CreateErrorResponse ErrorMessage =
     (let ResponseObj = [];
          ResponseObj = SetBoolField ''success'' False ResponseObj;
          ResponseObj = SetStringField ''error'' ErrorMessage ResponseObj
      in ResponseObj)"

text \<open>
  Modelled from the spec: \<open>FUnrealMCPCommonUtils::CreateErrorResponse\<close>, which the
  monolithic dispatcher calls for every failure, is not among the sources. The spec's
  envelope says that a failure response carries only \<open>success = false\<close> and \<open>error\<close>.
\<close>

definition CommonUtils_CreateErrorResponse :: "string \<Rightarrow> json_object" where
  "CommonUtils_CreateErrorResponse ErrorMessage =
     [(''success'', JBool False), (''error'', JString ErrorMessage)]"

definition Dispatcher_LoadBlueprint :: "host \<Rightarrow> string \<Rightarrow> addr option" where
  \<comment> \<open>\<open>LoadObject<UBlueprint>\<close>, then \<open>FUnrealMCPCommonUtils::FindBlueprint\<close>.\<close>
  "Dispatcher_LoadBlueprint h BlueprintPath =
     (case LoadObject h BlueprintPath of
        Some b \<Rightarrow> Some b
      | None \<Rightarrow> FindBlueprint h BlueprintPath)"

definition Command_LoadBlueprint :: "host \<Rightarrow> string \<Rightarrow> addr option" where
  \<comment> \<open>\<open>LoadObject<UBlueprint>\<close>, then the first hit of the discovery service.\<close>
  "Command_LoadBlueprint h BlueprintPath =
     (case LoadObject h BlueprintPath of
        Some b \<Rightarrow> Some b
      | None \<Rightarrow>
          (case FindBlueprints h BlueprintPath of
             [] \<Rightarrow> None
           | first # others \<Rightarrow> LoadObject h first))"

definition PathsCombine :: "string \<Rightarrow> string \<Rightarrow> string" where
  "PathsCombine a b = a @ ''/'' @ b"

definition GetExportDirectory :: "host \<Rightarrow> string \<times> host" where
  "GetExportDirectory h =
     (let ExportDir = PathsCombine (PathsCombine (ProjectSavedDir h) ''UnrealMCP'') ''Exports''
      in if \<not> DirectoryExists h ExportDir
         then (ExportDir,
               h\<lparr>DirectoryExists := (DirectoryExists h)(ExportDir := DirectoryCreatable h ExportDir)\<rparr>)
         else (ExportDir, h))"

text \<open>
  \<open>WriteJsonToTempFile\<close>, the same text in the dispatcher and in every command that
  writes: the path of the written file, or the empty string when saving fails.
\<close>

definition WriteJsonToTempFile :: "host \<Rightarrow> string \<Rightarrow> json_object \<Rightarrow> string \<times> host" where
  "WriteJsonToTempFile h FileName JsonContent =
     (let (ExportDir, h1) = GetExportDirectory h;
          FilePath = PathsCombine ExportDir FileName
      in if FileWritable h1 FilePath
         then (FilePath, h1\<lparr>Files := Files h1 @ [(FilePath, JsonContent)]\<rparr>)
         else ([], h1))"

definition CastCallFunction :: "host \<Rightarrow> addr option \<Rightarrow> (addr \<times> ufunction option) option" where
  \<comment> \<open>\<open>Cast<UK2Node_CallFunction>(Node)\<close>: the call node and its \<open>GetTargetFunction()\<close>.\<close>
  "CastCallFunction h Node =
     (case Node of
        None \<Rightarrow> None
      | Some a \<Rightarrow>
          (case NodeKind (NodeStore h a) of
             K2Node_CallFunction TargetFunction IsNodePure \<Rightarrow> Some (a, TargetFunction)
           | _ \<Rightarrow> None))"

definition FunctionKey :: "ufunction \<Rightarrow> string" where
  \<comment> \<open>\<open>Printf("%s::%s", owner class name or "Unknown", function name)\<close>.\<close>
  "FunctionKey Function =
     (case OwnerClass Function of Some C \<Rightarrow> ClassName C | None \<Rightarrow> ''Unknown'')
       @ ''::'' @ FunctionName Function"

section \<open>get_blueprint_dependencies\<close>

record dependency_sets =
  AssetDependencies :: "string list"
  BlueprintDependencies :: "string list"
  NativeClasses :: "string list"

text \<open>
  \<open>TSet<FString>::Add\<close>: an element equal to the new one is replaced where it stands.
  \<open>TMap<FString, int32>::FindOrAdd\<close> followed by \<open>Count++\<close>: a new key starts at zero.
\<close>

fun TSet_Add :: "string \<Rightarrow> string list \<Rightarrow> string list" where
  "TSet_Add x [] = [x]"
| "TSet_Add x (y # ys) = (if FStringEq y x then x # ys else y # TSet_Add x ys)"

fun TMap_Increment :: "string \<Rightarrow> (string \<times> int) list \<Rightarrow> (string \<times> int) list" where
  "TMap_Increment k [] = [(k, 1)]"
| "TMap_Increment k ((k', c) # m) =
     (if FStringEq k' k then (k', c + 1) # m else (k', c) # TMap_Increment k m)"

text \<open>The loop over the registry's dependencies.\<close>

fun CollectDependencies ::
  "host \<Rightarrow> bool \<Rightarrow> string list \<Rightarrow> dependency_sets \<Rightarrow> dependency_sets" where
  "CollectDependencies h bIncludeEngineClasses [] sets = sets"
| "CollectDependencies h bIncludeEngineClasses (DepPath # rest) sets =
     (if \<not> bIncludeEngineClasses \<and>
         (StartsWith DepPath ''/Script/'' \<or> StartsWith DepPath ''/Engine/'')
      then CollectDependencies h bIncludeEngineClasses rest sets
      else if StartsWith DepPath ''/Script/''
      then CollectDependencies h bIncludeEngineClasses rest
             (sets\<lparr>NativeClasses := TSet_Add DepPath (NativeClasses sets)\<rparr>)
      else
        (case GetAssetByObjectPath h DepPath of
           Some AssetClassName \<Rightarrow>
             if FStringEq AssetClassName ''Blueprint''
             then CollectDependencies h bIncludeEngineClasses rest
                    (sets\<lparr>BlueprintDependencies := TSet_Add DepPath (BlueprintDependencies sets)\<rparr>)
             else CollectDependencies h bIncludeEngineClasses rest
                    (sets\<lparr>AssetDependencies := TSet_Add DepPath (AssetDependencies sets)\<rparr>)
         | None \<Rightarrow>
             CollectDependencies h bIncludeEngineClasses rest
               (sets\<lparr>AssetDependencies := TSet_Add DepPath (AssetDependencies sets)\<rparr>)))"

definition CountsCall :: "bool \<Rightarrow> ufunction \<Rightarrow> bool" where
  \<comment> \<open>The condition under which a resolved call is counted.\<close>
  "CountsCall bIncludeEngineClasses Function =
     (bIncludeEngineClasses \<or> \<not> StartsWith (FunctionKey Function) ''U'' \<or>
      (case OwnerClass Function of
         None \<Rightarrow> True
       | Some Owner \<Rightarrow> \<not> StartsWith (ClassPathName Owner) ''/Script/Engine''))"

text \<open>The two nested loops that count the calls of every graph.\<close>

fun CountCalls_nodes ::
  "host \<Rightarrow> bool \<Rightarrow> addr option list \<Rightarrow> (string \<times> int) list \<Rightarrow> (string \<times> int) list" where
  "CountCalls_nodes h bIncludeEngineClasses [] FunctionCalls = FunctionCalls"
| "CountCalls_nodes h bIncludeEngineClasses (Node # rest) FunctionCalls =
     (case CastCallFunction h Node of
        Some (CallNode, Some Function) \<Rightarrow>
          if CountsCall bIncludeEngineClasses Function
          then CountCalls_nodes h bIncludeEngineClasses rest
                 (TMap_Increment (FunctionKey Function) FunctionCalls)
          else CountCalls_nodes h bIncludeEngineClasses rest FunctionCalls
      | _ \<Rightarrow> CountCalls_nodes h bIncludeEngineClasses rest FunctionCalls)"

fun CountCalls_graphs ::
  "host \<Rightarrow> bool \<Rightarrow> addr option list \<Rightarrow> (string \<times> int) list \<Rightarrow> (string \<times> int) list" where
  "CountCalls_graphs h bIncludeEngineClasses [] FunctionCalls = FunctionCalls"
| "CountCalls_graphs h bIncludeEngineClasses (Graph # rest) FunctionCalls =
     (case Graph of
        None \<Rightarrow> CountCalls_graphs h bIncludeEngineClasses rest FunctionCalls
      | Some g \<Rightarrow>
          CountCalls_graphs h bIncludeEngineClasses rest
            (CountCalls_nodes h bIncludeEngineClasses (Nodes (GraphStore h g)) FunctionCalls))"

definition FuncJson :: "string \<times> int \<Rightarrow> json" where
  "FuncJson Entry =
     JObject (SetNumberField ''call_count'' (snd Entry) (SetStringField ''function'' (fst Entry) []))"

text \<open>
  From ``Collect dependencies'' to the end, the dispatcher's handler and the command's
  \<open>Execute\<close> have the same text, except that the command's result starts with
  \<open>success = true\<close>; the result to start from is the last argument.
\<close>

definition GetBlueprintDependencies_body :: "host \<Rightarrow> addr \<Rightarrow> bool \<Rightarrow> json_object \<Rightarrow> json_object" where
  "GetBlueprintDependencies_body h b bIncludeEngineClasses ResultJson =
     (let Blueprint = BlueprintStore h b;
          Dependencies = GetDependencies h (PackageName Blueprint);
          sets = CollectDependencies h bIncludeEngineClasses Dependencies
                   \<lparr>AssetDependencies = [], BlueprintDependencies = [], NativeClasses = []\<rparr>;
          FunctionCalls = CountCalls_graphs h bIncludeEngineClasses (AllGraphs Blueprint) [];
          ResultJson = SetStringField ''blueprint_path'' (BlueprintPathName Blueprint) ResultJson;
          ResultJson = SetArrayField ''assets'' (map JString (AssetDependencies sets)) ResultJson;
          ResultJson = SetArrayField ''blueprints'' (map JString (BlueprintDependencies sets)) ResultJson;
          ResultJson = SetArrayField ''native_classes'' (map JString (NativeClasses sets)) ResultJson;
          ResultJson = SetArrayField ''function_calls'' (map FuncJson FunctionCalls) ResultJson
      in ResultJson)"

definition HandleGetBlueprintDependencies :: "host \<Rightarrow> params \<Rightarrow> json_object" where
  "HandleGetBlueprintDependencies h Params =
     (case TryGetStringField Params ''blueprint_path'' of
        None \<Rightarrow> CommonUtils_CreateErrorResponse ''Missing 'blueprint_path' parameter''
      | Some BlueprintPath \<Rightarrow>
          (case Dispatcher_LoadBlueprint h BlueprintPath of
             None \<Rightarrow> CommonUtils_CreateErrorResponse (''Blueprint not found: '' @ BlueprintPath)
           | Some b \<Rightarrow>
               GetBlueprintDependencies_body h b
                 (TryGetBoolField Params ''include_engine_classes'' False) []))"

definition GetBlueprintDependenciesCommand_Execute :: "host \<Rightarrow> params option \<Rightarrow> json_object" where
  "GetBlueprintDependenciesCommand_Execute h Parameters =
     (case Parameters of
        None \<Rightarrow> CreateErrorResponse ''Invalid JSON parameters''
      | Some JsonObject \<Rightarrow>
          (case TryGetStringField JsonObject ''blueprint_path'' of
             None \<Rightarrow> CreateErrorResponse ''Missing 'blueprint_path' parameter''
           | Some BlueprintPath \<Rightarrow>
               (case Command_LoadBlueprint h BlueprintPath of
                  None \<Rightarrow> CreateErrorResponse (''Blueprint not found: '' @ BlueprintPath)
                | Some b \<Rightarrow>
                    GetBlueprintDependencies_body h b
                      (TryGetBoolField JsonObject ''include_engine_classes'' False)
                      (SetBoolField ''success'' True []))))"

section \<open>redirect_function_call\<close>

definition MakeChangeJson ::
  "host \<Rightarrow> graph \<Rightarrow> addr \<Rightarrow> ufunction \<Rightarrow> uclass \<Rightarrow> ufunction \<Rightarrow> json_object" where
  "MakeChangeJson h Graph CallNode Function NewTargetClass NewFunction =
     (let ChangeJson = [];
          ChangeJson = SetStringField ''graph'' (GraphName Graph) ChangeJson;
          ChangeJson = SetStringField ''node_guid'' (NodeGuid (NodeStore h CallNode)) ChangeJson;
          ChangeJson = SetStringField ''original_function'' (FunctionKey Function) ChangeJson;
          ChangeJson = SetStringField ''new_function''
                         (ClassName NewTargetClass @ ''::'' @ FunctionName NewFunction) ChangeJson;
          ChangeJson = SetNumberField ''pos_x'' (NodePosX (NodeStore h CallNode)) ChangeJson;
          ChangeJson = SetNumberField ''pos_y'' (NodePosY (NodeStore h CallNode)) ChangeJson
      in ChangeJson)"

text \<open>The two nested loops that find the call nodes to redirect.\<close>

fun Discover_nodes ::
  "host \<Rightarrow> graph \<Rightarrow> string \<Rightarrow> uclass \<Rightarrow> ufunction \<Rightarrow> addr option list \<Rightarrow>
   addr list \<times> json list \<Rightarrow> addr list \<times> json list" where
  "Discover_nodes h Graph SourceFunction NewTargetClass NewFunction [] found = found"
| "Discover_nodes h Graph SourceFunction NewTargetClass NewFunction (Node # rest)
     (NodesToRedirect, ChangesArray) =
     (case CastCallFunction h Node of
        Some (CallNode, Some Function) \<Rightarrow>
          if FStringEq (FunctionName Function) SourceFunction
          then Discover_nodes h Graph SourceFunction NewTargetClass NewFunction rest
                 (NodesToRedirect @ [CallNode],
                  ChangesArray @
                    [JObject (MakeChangeJson h Graph CallNode Function NewTargetClass NewFunction)])
          else Discover_nodes h Graph SourceFunction NewTargetClass NewFunction rest
                 (NodesToRedirect, ChangesArray)
      | _ \<Rightarrow> Discover_nodes h Graph SourceFunction NewTargetClass NewFunction rest
               (NodesToRedirect, ChangesArray))"

fun Discover_graphs ::
  "host \<Rightarrow> string \<Rightarrow> uclass \<Rightarrow> ufunction \<Rightarrow> addr option list \<Rightarrow>
   addr list \<times> json list \<Rightarrow> addr list \<times> json list" where
  "Discover_graphs h SourceFunction NewTargetClass NewFunction [] found = found"
| "Discover_graphs h SourceFunction NewTargetClass NewFunction (Graph # rest) found =
     (case Graph of
        None \<Rightarrow> Discover_graphs h SourceFunction NewTargetClass NewFunction rest found
      | Some g \<Rightarrow>
          Discover_graphs h SourceFunction NewTargetClass NewFunction rest
            (Discover_nodes h (GraphStore h g) SourceFunction NewTargetClass NewFunction
               (Nodes (GraphStore h g)) found))"

text \<open>
  The host's \<open>SetFromFunction\<close>, as \<open>GetTargetFunction\<close> and \<open>IsNodePure\<close> show it
  afterwards: the call node refers to the given function.
\<close>

definition SetFromFunction :: "ufunction \<Rightarrow> node \<Rightarrow> node" where
  "SetFromFunction Function N =
     (case NodeKind N of
        K2Node_CallFunction TargetFunction IsNodePure \<Rightarrow>
          N\<lparr>NodeKind := K2Node_CallFunction (Some Function) (FunctionIsPure Function)\<rparr>
      | _ \<Rightarrow> N)"

text \<open>The loop that applies the redirects and counts them.\<close>

fun ApplyRedirects :: "ufunction \<Rightarrow> addr list \<Rightarrow> host \<times> int \<Rightarrow> host \<times> int" where
  "ApplyRedirects NewFunction [] (h, RedirectedCount) = (h, RedirectedCount)"
| "ApplyRedirects NewFunction (CallNode # rest) (h, RedirectedCount) =
     (let h = h\<lparr>Events := Events h @ [NodeModify CallNode]\<rparr>;
          h = h\<lparr>NodeStore :=
                  (NodeStore h)(CallNode := SetFromFunction NewFunction (NodeStore h CallNode))\<rparr>
      in ApplyRedirects NewFunction rest (h, RedirectedCount + 1))"

text \<open>
  From ``Find all call nodes to redirect'' to the end, the dispatcher's handler and the
  command's \<open>Execute\<close> have the same text, except that the command's result starts with
  \<open>success = true\<close>; the result to start from is the last argument.
\<close>

definition RedirectFunctionCall_body ::
  "host \<Rightarrow> addr \<Rightarrow> string \<Rightarrow> uclass \<Rightarrow> ufunction \<Rightarrow> bool \<Rightarrow> bool \<Rightarrow> json_object \<Rightarrow>
   json_object \<times> host" where
  "RedirectFunctionCall_body h sb SourceFunction NewTargetClass NewFunction bDryRun bBackup ResultJson =
     (let SourceBlueprint = BlueprintStore h sb;
          (NodesToRedirect, ChangesArray) =
             Discover_graphs h SourceFunction NewTargetClass NewFunction
               (AllGraphs SourceBlueprint) ([], []);
          ResultJson = SetStringField ''source_blueprint'' (BlueprintPathName SourceBlueprint) ResultJson;
          ResultJson = SetBoolField ''dry_run'' bDryRun ResultJson;
          ResultJson = SetNumberField ''nodes_found'' (int (length NodesToRedirect)) ResultJson;
          ResultJson = SetArrayField ''changes'' ChangesArray ResultJson
      in if length NodesToRedirect = 0
         then (SetStringField ''message'' ''No matching function calls found to redirect'' ResultJson, h)
         else if bDryRun
         then (SetStringField ''message''
                 (''Dry run: Found '' @ ToDecimal (length NodesToRedirect) @
                  '' function calls to redirect'') ResultJson, h)
         else
           (let (ResultJson, h) =
                  (if bBackup
                   then
                     (let FileName = ''backup_'' @ BlueprintName SourceBlueprint @ ''_'' @
                                     NowStamp h @ ''.json'';
                          BackupJson = [];
                          BackupJson = SetStringField ''blueprint_path''
                                         (BlueprintPathName SourceBlueprint) BackupJson;
                          BackupJson = SetStringField ''backup_time'' (NowString h) BackupJson;
                          BackupJson = SetArrayField ''original_state'' ChangesArray BackupJson;
                          (BackupPath, h) = WriteJsonToTempFile h FileName BackupJson
                      in (SetStringField ''backup_path'' BackupPath ResultJson, h))
                   else (ResultJson, h));
                (h, RedirectedCount) = ApplyRedirects NewFunction NodesToRedirect (h, 0);
                h = h\<lparr>Events := Events h @ [MarkBlueprintAsModified sb]\<rparr>;
                ResultJson = SetNumberField ''nodes_redirected'' RedirectedCount ResultJson;
                ResultJson = SetStringField ''message''
                               (''Successfully redirected '' @ ToDecimal (nat RedirectedCount) @
                                '' function calls'') ResultJson;
                ResultJson = SetBoolField ''requires_compile'' True ResultJson
            in (ResultJson, h)))"

definition FindTargetClass :: "host \<Rightarrow> string \<Rightarrow> uclass option" where
  \<comment> \<open>\<open>FindObject<UClass>\<close>, then \<open>LoadClass<UObject>\<close>.\<close>
  "FindTargetClass h TargetClass =
     (case FindObject h TargetClass of
        Some C \<Rightarrow> Some C
      | None \<Rightarrow> LoadClass h TargetClass)"

definition HandleRedirectFunctionCall :: "host \<Rightarrow> params \<Rightarrow> json_object \<times> host" where
  "HandleRedirectFunctionCall h Params =
     (case TryGetStringField Params ''source_blueprint'' of
        None \<Rightarrow> (CommonUtils_CreateErrorResponse ''Missing 'source_blueprint' parameter'', h)
      | Some SourceBlueprintPath \<Rightarrow>
     (case TryGetStringField Params ''source_function'' of
        None \<Rightarrow> (CommonUtils_CreateErrorResponse ''Missing 'source_function' parameter'', h)
      | Some SourceFunction \<Rightarrow>
     (case TryGetStringField Params ''target_class'' of
        None \<Rightarrow> (CommonUtils_CreateErrorResponse ''Missing 'target_class' parameter'', h)
      | Some TargetClass \<Rightarrow>
     (case TryGetStringField Params ''target_function'' of
        None \<Rightarrow> (CommonUtils_CreateErrorResponse ''Missing 'target_function' parameter'', h)
      | Some TargetFunction \<Rightarrow>
     (case Dispatcher_LoadBlueprint h SourceBlueprintPath of
        None \<Rightarrow> (CommonUtils_CreateErrorResponse
                   (''Source Blueprint not found: '' @ SourceBlueprintPath), h)
      | Some sb \<Rightarrow>
     (case FindTargetClass h TargetClass of
        None \<Rightarrow> (CommonUtils_CreateErrorResponse (''Target class not found: '' @ TargetClass), h)
      | Some NewTargetClass \<Rightarrow>
     (case FindFunctionByName h NewTargetClass TargetFunction of
        None \<Rightarrow> (CommonUtils_CreateErrorResponse
                   (''Target function not found: '' @ TargetClass @ ''::'' @ TargetFunction), h)
      | Some NewFunction \<Rightarrow>
          RedirectFunctionCall_body h sb SourceFunction NewTargetClass NewFunction
            (TryGetBoolField Params ''dry_run'' True) (TryGetBoolField Params ''backup'' True)
            [])))))))"

definition RedirectFunctionCallCommand_Execute :: "host \<Rightarrow> params option \<Rightarrow> json_object \<times> host" where
  "RedirectFunctionCallCommand_Execute h Parameters =
     (case Parameters of
        None \<Rightarrow> (CreateErrorResponse ''Invalid JSON parameters'', h)
      | Some JsonObject \<Rightarrow>
     (case TryGetStringField JsonObject ''source_blueprint'' of
        None \<Rightarrow> (CreateErrorResponse ''Missing 'source_blueprint' parameter'', h)
      | Some SourceBlueprintPath \<Rightarrow>
     (case TryGetStringField JsonObject ''source_function'' of
        None \<Rightarrow> (CreateErrorResponse ''Missing 'source_function' parameter'', h)
      | Some SourceFunction \<Rightarrow>
     (case TryGetStringField JsonObject ''target_class'' of
        None \<Rightarrow> (CreateErrorResponse ''Missing 'target_class' parameter'', h)
      | Some TargetClass \<Rightarrow>
     (case TryGetStringField JsonObject ''target_function'' of
        None \<Rightarrow> (CreateErrorResponse ''Missing 'target_function' parameter'', h)
      | Some TargetFunction \<Rightarrow>
     (case Command_LoadBlueprint h SourceBlueprintPath of
        None \<Rightarrow> (CreateErrorResponse (''Source Blueprint not found: '' @ SourceBlueprintPath), h)
      | Some sb \<Rightarrow>
     (case FindTargetClass h TargetClass of
        None \<Rightarrow> (CreateErrorResponse (''Target class not found: '' @ TargetClass), h)
      | Some NewTargetClass \<Rightarrow>
     (case FindFunctionByName h NewTargetClass TargetFunction of
        None \<Rightarrow> (CreateErrorResponse
                   (''Target function not found: '' @ TargetClass @ ''::'' @ TargetFunction), h)
      | Some NewFunction \<Rightarrow>
          RedirectFunctionCall_body h sb SourceFunction NewTargetClass NewFunction
            (TryGetBoolField JsonObject ''dry_run'' True) (TryGetBoolField JsonObject ''backup'' True)
            (SetBoolField ''success'' True [])))))))))"

section \<open>delete_blueprint_function\<close>

text \<open>The search loop, run over all graphs and then over the function graphs.\<close>

fun FindGraphByName :: "host \<Rightarrow> addr option list \<Rightarrow> string \<Rightarrow> addr option" where
  "FindGraphByName h [] FunctionNameParam = None"
| "FindGraphByName h (Graph # rest) FunctionNameParam =
     (case Graph of
        None \<Rightarrow> FindGraphByName h rest FunctionNameParam
      | Some g \<Rightarrow>
          if FStringEq (GraphName (GraphStore h g)) FunctionNameParam then Some g
          else FindGraphByName h rest FunctionNameParam)"

definition FindGraphToDelete :: "host \<Rightarrow> addr \<Rightarrow> string \<Rightarrow> addr option" where
  "FindGraphToDelete h b FunctionNameParam =
     (case FindGraphByName h (AllGraphs (BlueprintStore h b)) FunctionNameParam of
        Some g \<Rightarrow> Some g
      | None \<Rightarrow> FindGraphByName h (FunctionGraphs (BlueprintStore h b)) FunctionNameParam)"

text \<open>
  The host's \<open>RemoveGraph\<close>, as \<open>GetAllGraphs\<close> and \<open>FunctionGraphs\<close> show it afterwards:
  the graph is in neither list any more.
\<close>

definition RemoveGraph :: "addr \<Rightarrow> addr \<Rightarrow> host \<Rightarrow> host" where
  "RemoveGraph b g h =
     h\<lparr>BlueprintStore := (BlueprintStore h)
         (b := (BlueprintStore h b)
            \<lparr>AllGraphs := filter (\<lambda>x. x \<noteq> Some g) (AllGraphs (BlueprintStore h b)),
             FunctionGraphs := filter (\<lambda>x. x \<noteq> Some g) (FunctionGraphs (BlueprintStore h b))\<rparr>)\<rparr>"

definition Quote :: string where
  \<comment> \<open>The apostrophe around names in the messages.\<close>
  "Quote = [CHR 0x27]"

text \<open>
  From ``Create backup if requested'' to the end, the dispatcher's handler and the
  command's \<open>Execute\<close> have the same text; each calls the \<open>SerializeGraph\<close> of its own
  class, which is the first argument.
\<close>

definition DeleteBlueprintFunction_body ::
  "(host \<Rightarrow> addr option \<Rightarrow> bool \<Rightarrow> json_object option) \<Rightarrow> host \<Rightarrow> addr \<Rightarrow> string \<Rightarrow> addr \<Rightarrow>
   bool \<Rightarrow> json_object \<times> host" where
  "DeleteBlueprintFunction_body OwnSerializeGraph h b FunctionNameParam GraphToDelete bBackup =
     (let Blueprint = BlueprintStore h b;
          (BackupPath, h) =
             (if bBackup
              then
                (let BackupJson = [];
                     BackupJson = SetStringField ''blueprint_path'' (BlueprintPathName Blueprint) BackupJson;
                     BackupJson = SetStringField ''function_name'' FunctionNameParam BackupJson;
                     BackupJson = SetStringField ''backup_time'' (NowString h) BackupJson;
                     BackupJson = SetObjectField ''graph_data''
                                    (OwnSerializeGraph h (Some GraphToDelete) True) BackupJson;
                     FileName = ''backup_func_'' @ BlueprintName Blueprint @ ''_'' @
                                FunctionNameParam @ ''_'' @ NowStamp h @ ''.json''
                 in WriteJsonToTempFile h FileName BackupJson)
              else ([], h));
          NodeCount = length (Nodes (GraphStore h GraphToDelete));
          h = h\<lparr>Events := Events h @ [BlueprintModify b]\<rparr>;
          h = RemoveGraph b GraphToDelete h;
          h = h\<lparr>Events := Events h @ [MarkBlueprintAsModified b]\<rparr>;
          ResultJson = [];
          ResultJson = SetBoolField ''success'' True ResultJson;
          ResultJson = SetStringField ''blueprint_path'' (BlueprintPathName Blueprint) ResultJson;
          ResultJson = SetStringField ''function_name'' FunctionNameParam ResultJson;
          ResultJson = SetNumberField ''nodes_removed'' (int NodeCount) ResultJson;
          ResultJson = (if BackupPath \<noteq> []
                        then SetStringField ''backup_path'' BackupPath ResultJson
                        else ResultJson);
          ResultJson = SetBoolField ''requires_compile'' True ResultJson;
          ResultJson = SetStringField ''message''
                         (''Successfully deleted function '' @ Quote @ FunctionNameParam @ Quote @
                          '' ('' @ ToDecimal NodeCount @ '' nodes)'') ResultJson
      in (ResultJson, h))"

definition HandleDeleteBlueprintFunction :: "host \<Rightarrow> params \<Rightarrow> json_object \<times> host" where
  "HandleDeleteBlueprintFunction h Params =
     (case TryGetStringField Params ''blueprint_path'' of
        None \<Rightarrow> (CommonUtils_CreateErrorResponse ''Missing 'blueprint_path' parameter'', h)
      | Some BlueprintPath \<Rightarrow>
     (case TryGetStringField Params ''function_name'' of
        None \<Rightarrow> (CommonUtils_CreateErrorResponse ''Missing 'function_name' parameter'', h)
      | Some FunctionNameParam \<Rightarrow>
     (case Dispatcher_LoadBlueprint h BlueprintPath of
        None \<Rightarrow> (CommonUtils_CreateErrorResponse (''Blueprint not found: '' @ BlueprintPath), h)
      | Some b \<Rightarrow>
     (case FindGraphToDelete h b FunctionNameParam of
        None \<Rightarrow> (CommonUtils_CreateErrorResponse
                   (''Function graph not found: '' @ FunctionNameParam), h)
      | Some GraphToDelete \<Rightarrow>
          DeleteBlueprintFunction_body SerializeGraph h b FunctionNameParam GraphToDelete
            (TryGetBoolField Params ''backup'' True)))))"

definition DeleteBlueprintFunctionCommand_Execute :: "host \<Rightarrow> params option \<Rightarrow> json_object \<times> host" where
  "DeleteBlueprintFunctionCommand_Execute h Parameters =
     (case Parameters of
        None \<Rightarrow> (CreateErrorResponse ''Invalid JSON parameters'', h)
      | Some JsonObject \<Rightarrow>
     (case TryGetStringField JsonObject ''blueprint_path'' of
        None \<Rightarrow> (CreateErrorResponse ''Missing 'blueprint_path' parameter'', h)
      | Some BlueprintPath \<Rightarrow>
     (case TryGetStringField JsonObject ''function_name'' of
        None \<Rightarrow> (CreateErrorResponse ''Missing 'function_name' parameter'', h)
      | Some FunctionNameParam \<Rightarrow>
     (case Command_LoadBlueprint h BlueprintPath of
        None \<Rightarrow> (CreateErrorResponse (''Blueprint not found: '' @ BlueprintPath), h)
      | Some b \<Rightarrow>
     (case FindGraphToDelete h b FunctionNameParam of
        None \<Rightarrow> (CreateErrorResponse (''Function graph not found: '' @ FunctionNameParam), h)
      | Some GraphToDelete \<Rightarrow>
          DeleteBlueprintFunction_body Delete_SerializeGraph h b FunctionNameParam GraphToDelete
            (TryGetBoolField JsonObject ''backup'' True))))))"

section \<open>set_blueprint_parent_class\<close>






section \<open>Reading the stored order\<close>

text \<open>
  What the claims about order and classification refer to: the non-null entries of a
  pointer array in stored order, the links of a pin that lead to a pin with an owning
  node, the resolved calls of a subject's graphs, and the three conditions by which a
  dependency path is classified.
\<close>

fun NonNull :: "'a option list \<Rightarrow> 'a list" where
  "NonNull [] = []"
| "NonNull (None # xs) = NonNull xs"
| "NonNull (Some x # xs) = x # NonNull xs"

fun Connections :: "linked_pin option list \<Rightarrow> (addr \<times> string) list" where
  "Connections [] = []"
| "Connections (None # rest) = Connections rest"
| "Connections (Some L # rest) =
     (case OwningNode L of
        None \<Rightarrow> Connections rest
      | Some n \<Rightarrow> (n, LinkedPinName L) # Connections rest)"

definition ConnectionDoc :: "host \<Rightarrow> addr \<times> string \<Rightarrow> json" where
  "ConnectionDoc h c =
     JObject [(''node_guid'', JString (NodeGuid (NodeStore h (fst c)))),
              (''pin_name'', JString (snd c))]"

definition PinFields :: "host \<Rightarrow> pin \<Rightarrow> json_object" where
  "PinFields h P = (case SerializePin h (Some P) True of Some doc \<Rightarrow> doc | None \<Rightarrow> [])"

definition NodeFields :: "host \<Rightarrow> addr \<Rightarrow> json_object" where
  "NodeFields h a = (case SerializeNode h (Some a) of Some doc \<Rightarrow> doc | None \<Rightarrow> [])"

definition Delete_PinFields :: "host \<Rightarrow> pin \<Rightarrow> json_object" where
  "Delete_PinFields h P =
     (case Delete_SerializePin h (Some P) True of Some doc \<Rightarrow> doc | None \<Rightarrow> [])"

definition Delete_NodeFields :: "host \<Rightarrow> addr \<Rightarrow> json_object" where
  "Delete_NodeFields h a =
     (case Delete_SerializeNode h (Some a) of Some doc \<Rightarrow> doc | None \<Rightarrow> [])"

fun ResolvedCalls_nodes :: "host \<Rightarrow> addr option list \<Rightarrow> ufunction list" where
  "ResolvedCalls_nodes h [] = []"
| "ResolvedCalls_nodes h (Node # rest) =
     (case CastCallFunction h Node of
        Some (CallNode, Some Function) \<Rightarrow> Function # ResolvedCalls_nodes h rest
      | _ \<Rightarrow> ResolvedCalls_nodes h rest)"

fun ResolvedCalls :: "host \<Rightarrow> addr option list \<Rightarrow> ufunction list" where
  "ResolvedCalls h [] = []"
| "ResolvedCalls h (Graph # rest) =
     (case Graph of
        None \<Rightarrow> ResolvedCalls h rest
      | Some g \<Rightarrow> ResolvedCalls_nodes h (Nodes (GraphStore h g)) @ ResolvedCalls h rest)"

definition IsNativePath :: "string \<Rightarrow> bool" where
  "IsNativePath DepPath = StartsWith DepPath ''/Script/''"

definition IsBlueprintAsset :: "host \<Rightarrow> string \<Rightarrow> bool" where
  "IsBlueprintAsset h DepPath =
     (case GetAssetByObjectPath h DepPath of
        Some AssetClassName \<Rightarrow> FStringEq AssetClassName ''Blueprint''
      | None \<Rightarrow> False)"

definition Classified :: "host \<Rightarrow> dependency_sets \<Rightarrow> bool" where
  \<comment> \<open>Every member passed the test of its own set, and no set holds two equal strings.\<close>
  "Classified h sets =
     (list_all (\<lambda>p. \<not> IsNativePath p \<and> \<not> IsBlueprintAsset h p) (AssetDependencies sets) \<and>
      list_all (\<lambda>p. \<not> IsNativePath p \<and> IsBlueprintAsset h p) (BlueprintDependencies sets) \<and>
      list_all IsNativePath (NativeClasses sets) \<and>
      distinct (map (map ToLower) (AssetDependencies sets)) \<and>
      distinct (map (map ToLower) (BlueprintDependencies sets)) \<and>
      distinct (map (map ToLower) (NativeClasses sets)))"

text \<open>
  For the redirect: whether a node pointer is a call node that resolves to a function of
  the given name, the call nodes of a list of graphs that do (in discovery order), and
  what it means that a later host still answers every lookup as before and has the same
  Blueprints and graphs.
\<close>

definition CallsFunction :: "host \<Rightarrow> string \<Rightarrow> addr option \<Rightarrow> bool" where
  "CallsFunction h SourceFunction Node =
     (case CastCallFunction h Node of
        Some (CallNode, Some Function) \<Rightarrow> FStringEq (FunctionName Function) SourceFunction
      | _ \<Rightarrow> False)"

fun Discovered :: "host \<Rightarrow> string \<Rightarrow> addr option list \<Rightarrow> addr list" where
  "Discovered h SourceFunction [] = []"
| "Discovered h SourceFunction (Graph # rest) =
     (case Graph of
        None \<Rightarrow> Discovered h SourceFunction rest
      | Some g \<Rightarrow>
          NonNull (filter (CallsFunction h SourceFunction) (Nodes (GraphStore h g)))
            @ Discovered h SourceFunction rest)"

definition SameSubject :: "host \<Rightarrow> host \<Rightarrow> bool" where
  "SameSubject h h' =
     (LoadObject h' = LoadObject h \<and> FindBlueprint h' = FindBlueprint h \<and>
      FindBlueprints h' = FindBlueprints h \<and> FindObject h' = FindObject h \<and>
      LoadClass h' = LoadClass h \<and> FindFunctionByName h' = FindFunctionByName h \<and>
      BlueprintStore h' = BlueprintStore h \<and> GraphStore h' = GraphStore h)"




section \<open>A small subject to run the operations on\<close>

text \<open>
  A Blueprint \<open>BP_Player\<close> with an event graph and one function graph. The event graph
  has an event node, two calls of \<open>OldFunc\<close> (with a null entry between them), a call
  of the engine's \<open>PrintString\<close> and a call of a function of the engine class
  \<open>UserInterfaceSettings\<close>; the function graph \<open>DoThing\<close> has an entry node.
  The native class \<open>NewClass\<close> offers \<open>NewFunc\<close> and a function that is also
  called \<open>OldFunc\<close>.
\<close>

definition ex_PlayerClass :: uclass where
  "ex_PlayerClass = \<lparr>ClassName = ''BP_Player_C'', ClassPathName = ''/Game/BP_Player.BP_Player_C''\<rparr>"

definition ex_NewClass :: uclass where
  "ex_NewClass = \<lparr>ClassName = ''NewClass'', ClassPathName = ''/Script/MyGame.NewClass''\<rparr>"

definition ex_KismetClass :: uclass where
  "ex_KismetClass =
     \<lparr>ClassName = ''KismetSystemLibrary'', ClassPathName = ''/Script/Engine.KismetSystemLibrary''\<rparr>"

definition ex_OldFunc :: ufunction where
  "ex_OldFunc = \<lparr>FunctionName = ''OldFunc'', OwnerClass = Some ex_PlayerClass, FunctionIsPure = False\<rparr>"

definition ex_NewFunc :: ufunction where
  "ex_NewFunc = \<lparr>FunctionName = ''NewFunc'', OwnerClass = Some ex_NewClass, FunctionIsPure = False\<rparr>"

definition ex_NativeOldFunc :: ufunction where
  "ex_NativeOldFunc =
     \<lparr>FunctionName = ''OldFunc'', OwnerClass = Some ex_NewClass, FunctionIsPure = False\<rparr>"

definition ex_PrintString :: ufunction where
  "ex_PrintString =
     \<lparr>FunctionName = ''PrintString'', OwnerClass = Some ex_KismetClass, FunctionIsPure = False\<rparr>"

definition ex_SettingsClass :: uclass where
  "ex_SettingsClass =
     \<lparr>ClassName = ''UserInterfaceSettings'',
      ClassPathName = ''/Script/Engine.UserInterfaceSettings''\<rparr>"

definition ex_GetDPIScale :: ufunction where
  "ex_GetDPIScale =
     \<lparr>FunctionName = ''GetDPIScaleBasedOnSize'', OwnerClass = Some ex_SettingsClass,
      FunctionIsPure = True\<rparr>"

definition ex_pin :: "string \<Rightarrow> EEdGraphPinDirection \<Rightarrow> linked_pin option list \<Rightarrow> pin" where
  "ex_pin name dir links =
     \<lparr>PinName = name, Direction = dir, PinCategory = ''exec'', PinSubCategoryObject = None,
      IsArray = False, bIsReference = False, bIsConst = False, DefaultValue = [],
      DefaultObject = None, DefaultTextValue = [], LinkedTo = links\<rparr>"

definition ex_node :: "string \<Rightarrow> string \<Rightarrow> k2node \<Rightarrow> pin option list \<Rightarrow> node" where
  "ex_node guid cls kind pins =
     \<lparr>NodeGuid = guid, NodeClassName = cls, NodeTitle = cls, NodePosX = 0, NodePosY = 0,
      NodeComment = [], bCommentBubbleVisible = False, NodeKind = kind, Pins = pins\<rparr>"

definition ex_nodes :: "addr \<Rightarrow> node" where
  "ex_nodes a =
     (if a = 0 then
        ex_node ''N0'' ''K2Node_Event'' (K2Node_Event ''ReceiveBeginPlay'' None)
          [Some (ex_pin ''then'' EGPD_Output
                   [Some \<lparr>OwningNode = Some 1, LinkedPinName = ''execute''\<rparr>])]
      else if a = 1 then
        ex_node ''N1'' ''K2Node_CallFunction'' (K2Node_CallFunction (Some ex_OldFunc) False)
          [Some (ex_pin ''execute'' EGPD_Input
                   [Some \<lparr>OwningNode = Some 0, LinkedPinName = ''then''\<rparr>]),
           None,
           Some (ex_pin ''then'' EGPD_Output
                   [Some \<lparr>OwningNode = Some 2, LinkedPinName = ''execute''\<rparr>,
                    None,
                    Some \<lparr>OwningNode = Some 3, LinkedPinName = ''execute''\<rparr>]),
           Some (ex_pin ''self'' EGPD_Input [])]
      else if a = 2 then
        ex_node ''N2'' ''K2Node_CallFunction'' (K2Node_CallFunction (Some ex_OldFunc) False)
          [Some (ex_pin ''execute'' EGPD_Input
                   [Some \<lparr>OwningNode = Some 1, LinkedPinName = ''then''\<rparr>])]
      else if a = 3 then
        ex_node ''N3'' ''K2Node_CallFunction'' (K2Node_CallFunction (Some ex_PrintString) False)
          [Some (ex_pin ''execute'' EGPD_Input
                   [Some \<lparr>OwningNode = Some 1, LinkedPinName = ''then''\<rparr>])]
      else if a = 4 then
        ex_node ''N4'' ''K2Node_FunctionEntry'' K2Node_FunctionEntry []
      else
        ex_node ''N5'' ''K2Node_CallFunction'' (K2Node_CallFunction (Some ex_GetDPIScale) True) [])"

definition ex_graphs :: "addr \<Rightarrow> graph" where
  "ex_graphs g =
     (if g = 0 then
        \<lparr>GraphName = ''EventGraph'', GraphClassName = ''EdGraph'',
         Nodes = [Some 0, Some 1, None, Some 2, Some 3, Some 5]\<rparr>
      else \<lparr>GraphName = ''DoThing'', GraphClassName = ''EdGraph'', Nodes = [Some 4]\<rparr>)"

definition ex_blueprint :: blueprint where
  "ex_blueprint =
     \<lparr>BlueprintName = ''BP_Player'', BlueprintPathName = ''/Game/BP_Player.BP_Player'',
      PackageName = ''/Game/BP_Player'', ParentClass = None,
      AllGraphs = [Some 1, Some 0], FunctionGraphs = [Some 1]\<rparr>"

definition ex_host :: host where
  "ex_host =
     \<lparr>LoadObject = (\<lambda>p. if p = ''/Game/BP_Player'' then Some 0 else None),
      FindBlueprint = (\<lambda>p. None),
      FindBlueprints = (\<lambda>p. []),
      ResolveParentClassForBlueprint = (\<lambda>n. None),
      FindObject = (\<lambda>n. if n = ''NewClass'' then Some ex_NewClass else None),
      LoadClass = (\<lambda>n. None),
      FindFunctionByName =
        (\<lambda>C n. if n = ''NewFunc'' then Some ex_NewFunc
               else if n = ''OldFunc'' then Some ex_NativeOldFunc else None),
      GetDependencies =
        (\<lambda>p. [''/Script/Engine'', ''/Game/BP_Enemy'', ''/Game/Mesh'', ''/game/bp_enemy'',
              ''/Engine/BasicShapes/Cube'', ''/Game/Unknown'']),
      GetAssetByObjectPath =
        (\<lambda>p. if FStringEq p ''/Game/BP_Enemy'' then Some ''Blueprint''
             else if FStringEq p ''/Game/Mesh'' then Some ''StaticMesh'' else None),
      BlueprintStore = (\<lambda>b. ex_blueprint),
      GraphStore = ex_graphs,
      NodeStore = ex_nodes,
      Events = [],
      NowStamp = ''20240101_120000'',
      NowString = ''2024.01.01-12.00.00'',
      ProjectSavedDir = ''/Project/Saved'',
      DirectoryExists = (\<lambda>d. False),
      DirectoryCreatable = (\<lambda>d. True),
      FileWritable = (\<lambda>f. True),
      Files = []\<rparr>"

definition ex_params :: "(string \<times> string) list \<Rightarrow> (string \<times> bool) list \<Rightarrow> params" where
  \<comment> \<open>A request with the given string and boolean fields.\<close>
  "ex_params strings bools = \<lparr>StringFields = map_of strings, BoolFields = map_of bools\<rparr>"

definition ex_redirect :: "string \<Rightarrow> bool \<Rightarrow> params" where
  "ex_redirect target dry =
     ex_params [(''source_blueprint'', ''/Game/BP_Player''), (''source_function'', ''OldFunc''),
                (''target_class'', ''NewClass''), (''target_function'', target)]
               [(''dry_run'', dry)]"

definition ex_dependencies :: params where
  "ex_dependencies = ex_params [(''blueprint_path'', ''/Game/BP_Player'')] []"

definition ex_delete :: "string \<Rightarrow> params" where
  "ex_delete name =
     ex_params [(''blueprint_path'', ''/Game/BP_Player''), (''function_name'', name)] []"

definition ex_after_delete :: host where
  "ex_after_delete = snd (HandleDeleteBlueprintFunction ex_host (ex_delete ''DoThing''))"

definition ex_later_host :: host where
  "ex_later_host = ex_host\<lparr>Events := [MarkBlueprintAsModified 7], NowStamp := ''20250101_000000''\<rparr>"


definition ex_redirected_host :: host where
  \<comment> \<open>The example host with the nodes 1 and 2 set to the native \<open>OldFunc\<close>.\<close>
  "ex_redirected_host =
     ex_host\<lparr>NodeStore :=
       (\<lambda>a. if a \<in> set [1, 2] then SetFromFunction ex_NativeOldFunc (NodeStore ex_host a)
            else NodeStore ex_host a)\<rparr>"



text \<open>
  The same subject with two other calls in the event graph: node 1 calls the engine's
  \<open>Actor::K2_DestroyActor\<close> and node 2 calls \<open>Upgrade\<close> of a project class
  \<open>UpgradeStation\<close> of the module \<open>EngineRoom\<close>.
\<close>

definition ex_ActorClass :: uclass where
  "ex_ActorClass = \<lparr>ClassName = ''Actor'', ClassPathName = ''/Script/Engine.Actor''\<rparr>"

definition ex_DestroyActor :: ufunction where
  "ex_DestroyActor =
     \<lparr>FunctionName = ''K2_DestroyActor'', OwnerClass = Some ex_ActorClass,
      FunctionIsPure = False\<rparr>"

definition ex_UpgradeStationClass :: uclass where
  "ex_UpgradeStationClass =
     \<lparr>ClassName = ''UpgradeStation'', ClassPathName = ''/Script/EngineRoom.UpgradeStation''\<rparr>"

definition ex_Upgrade :: ufunction where
  "ex_Upgrade =
     \<lparr>FunctionName = ''Upgrade'', OwnerClass = Some ex_UpgradeStationClass,
      FunctionIsPure = False\<rparr>"

definition ex_engine_host :: host where
  "ex_engine_host =
     ex_host\<lparr>NodeStore :=
       (\<lambda>a. if a = 1 then
               ex_node ''N1'' ''K2Node_CallFunction''
                 (K2Node_CallFunction (Some ex_DestroyActor) False) []
             else if a = 2 then
               ex_node ''N2'' ''K2Node_CallFunction''
                 (K2Node_CallFunction (Some ex_Upgrade) False) []
             else ex_nodes a)\<rparr>"

section \<open>Basic facts about documents\<close>

lemma GetField_SetField [simp]:
  "GetField k (SetField k' v obj) = (if k = k' then Some v else GetField k obj)"
  by (induction obj) (auto simp: GetField_def)

lemma GetField_Nil [simp]: "GetField k [] = None"
  by (simp add: GetField_def)

lemma GetField_Cons [simp]:
  "GetField k ((k', v) # obj) = (if k = k' then Some v else GetField k obj)"
  by (simp add: GetField_def)

lemmas SetXField_defs =
  SetStringField_def SetNumberField_def SetBoolField_def SetArrayField_def SetObjectField_def

lemma CommonUtils_error_fields [simp]:
  "GetField k (CommonUtils_CreateErrorResponse m) =
     (if k = ''success'' then Some (JBool False)
      else if k = ''error'' then Some (JString m) else None)"
  by (simp add: CommonUtils_CreateErrorResponse_def)

lemma CreateErrorResponse_fields [simp]:
  "GetField k (CreateErrorResponse m) =
     (if k = ''success'' then Some (JBool False)
      else if k = ''error'' then Some (JString m) else None)"
  by (simp add: CreateErrorResponse_def SetXField_defs)

section \<open>Redirect: the two counts, and the preview\<close>

lemma ApplyRedirects_count:
  "snd (ApplyRedirects f ns (h, c)) = c + int (length ns)"
  by (induction ns arbitrary: h c) (auto simp: Let_def)

lemma body_counts_agree:
  assumes "GetField ''nodes_redirected'' R = None"
    and "GetField ''nodes_redirected''
           (fst (RedirectFunctionCall_body h sb src C f dry bk R)) = Some v"
  shows "GetField ''nodes_found'' (fst (RedirectFunctionCall_body h sb src C f dry bk R)) = Some v"
  using assms ApplyRedirects_count[of f _ _ 0]
  apply (simp add: RedirectFunctionCall_body_def Let_def SetXField_defs
      split: prod.splits if_splits)
   apply (metis snd_conv)+
  done

text \<open>
  C10. A response of redirect_function_call that reports \<open>nodes_redirected\<close> reports
  the same number as \<open>nodes_found\<close>: the loop that rewrites the discovered nodes counts
  every one of them. This holds for the dispatcher's handler and for the command.
\<close>

theorem nodes_redirected_equals_nodes_found:
  "(GetField ''nodes_redirected'' (fst (HandleRedirectFunctionCall h Params)) = Some v \<longrightarrow>
      GetField ''nodes_found'' (fst (HandleRedirectFunctionCall h Params)) = Some v) \<and>
   (GetField ''nodes_redirected'' (fst (RedirectFunctionCallCommand_Execute h Parameters)) = Some v \<longrightarrow>
      GetField ''nodes_found'' (fst (RedirectFunctionCallCommand_Execute h Parameters)) = Some v)"
  by (auto simp: HandleRedirectFunctionCall_def RedirectFunctionCallCommand_Execute_def
      SetBoolField_def intro!: body_counts_agree split: option.splits)

theorem nodes_redirected_equals_nodes_found_witness:
  "GetField ''nodes_redirected''
     (fst (HandleRedirectFunctionCall ex_host (ex_redirect ''NewFunc'' False))) = Some (JNumber 2) \<and>
   GetField ''nodes_found''
     (fst (HandleRedirectFunctionCall ex_host (ex_redirect ''NewFunc'' False))) = Some (JNumber 2) \<and>
   GetField ''nodes_redirected''
     (fst (RedirectFunctionCallCommand_Execute ex_host (Some (ex_redirect ''NewFunc'' False))))
       = Some (JNumber 2) \<and>
   GetField ''nodes_found''
     (fst (RedirectFunctionCallCommand_Execute ex_host (Some (ex_redirect ''NewFunc'' False))))
       = Some (JNumber 2)"
proof -
  have a: "GetField ''nodes_redirected''
      (fst (HandleRedirectFunctionCall ex_host (ex_redirect ''NewFunc'' False))) = Some (JNumber 2)"
    by code_simp
  have b: "GetField ''nodes_redirected''
      (fst (RedirectFunctionCallCommand_Execute ex_host (Some (ex_redirect ''NewFunc'' False))))
        = Some (JNumber 2)"
    by code_simp
  from a b nodes_redirected_equals_nodes_found
    [of ex_host "ex_redirect ''NewFunc'' False" "JNumber 2" "Some (ex_redirect ''NewFunc'' False)"]
  show ?thesis by simp
qed

lemma body_dry_run: "snd (RedirectFunctionCall_body h sb src C f True bk R) = h"
  by (simp add: RedirectFunctionCall_body_def Let_def split: prod.splits)

lemma Handle_dry_run:
  "TryGetBoolField Params ''dry_run'' True \<Longrightarrow> snd (HandleRedirectFunctionCall h Params) = h"
  by (auto simp: HandleRedirectFunctionCall_def body_dry_run split: option.splits)

lemma Execute_dry_run:
  "TryGetBoolField Params ''dry_run'' True \<Longrightarrow>
   snd (RedirectFunctionCallCommand_Execute h (Some Params)) = h"
  by (auto simp: RedirectFunctionCallCommand_Execute_def body_dry_run split: option.splits)

text \<open>
  C5. redirect_function_call with \<open>dry_run\<close> true (given, or left at its default) leaves
  the host as it was: the node store (every call target), the written files and the log
  of host calls (no node or Blueprint marked modified) are unchanged, and the same
  request run again on the resulting host returns the same response, hence the same
  \<open>nodes_found\<close> and the same change list. This holds for the dispatcher's handler and
  for the command.
\<close>

theorem dry_run_changes_nothing:
  assumes "TryGetBoolField Params ''dry_run'' True"
  shows "snd (HandleRedirectFunctionCall h Params) = h \<and>
         NodeStore (snd (HandleRedirectFunctionCall h Params)) = NodeStore h \<and>
         Files (snd (HandleRedirectFunctionCall h Params)) = Files h \<and>
         Events (snd (HandleRedirectFunctionCall h Params)) = Events h \<and>
         fst (HandleRedirectFunctionCall (snd (HandleRedirectFunctionCall h Params)) Params)
           = fst (HandleRedirectFunctionCall h Params) \<and>
         snd (RedirectFunctionCallCommand_Execute h (Some Params)) = h \<and>
         NodeStore (snd (RedirectFunctionCallCommand_Execute h (Some Params))) = NodeStore h \<and>
         Files (snd (RedirectFunctionCallCommand_Execute h (Some Params))) = Files h \<and>
         Events (snd (RedirectFunctionCallCommand_Execute h (Some Params))) = Events h \<and>
         fst (RedirectFunctionCallCommand_Execute
                (snd (RedirectFunctionCallCommand_Execute h (Some Params))) (Some Params))
           = fst (RedirectFunctionCallCommand_Execute h (Some Params))"
  by (simp add: Handle_dry_run[OF assms] Execute_dry_run[OF assms])

theorem dry_run_changes_nothing_witness:
  "TryGetBoolField (ex_redirect ''NewFunc'' True) ''dry_run'' True \<and>
   snd (HandleRedirectFunctionCall ex_host (ex_redirect ''NewFunc'' True)) = ex_host \<and>
   snd (RedirectFunctionCallCommand_Execute ex_host (Some (ex_redirect ''NewFunc'' True))) = ex_host \<and>
   GetField ''nodes_found''
     (fst (HandleRedirectFunctionCall ex_host (ex_redirect ''NewFunc'' True))) = Some (JNumber 2) \<and>
   GetField ''nodes_found''
     (fst (HandleRedirectFunctionCall
             (snd (HandleRedirectFunctionCall ex_host (ex_redirect ''NewFunc'' True)))
             (ex_redirect ''NewFunc'' True))) = Some (JNumber 2)"
proof -
  have a: "TryGetBoolField (ex_redirect ''NewFunc'' True) ''dry_run'' True"
    by code_simp
  have b: "GetField ''nodes_found''
      (fst (HandleRedirectFunctionCall ex_host (ex_redirect ''NewFunc'' True))) = Some (JNumber 2)"
    by code_simp
  from a b dry_run_changes_nothing [OF a, of ex_host] show ?thesis by simp
qed

section \<open>Delete: a name that matches no graph\<close>

lemma FindGraphByName_None_iff:
  "FindGraphByName h gs fn = None \<longleftrightarrow>
     (\<forall>g. Some g \<in> set gs \<longrightarrow> \<not> FStringEq (GraphName (GraphStore h g)) fn)"
  by (induction gs) (auto split: option.splits)

lemma FindGraphToDelete_None_iff:
  "FindGraphToDelete h b fn = None \<longleftrightarrow>
     (\<forall>g. Some g \<in> set (AllGraphs (BlueprintStore h b)) \<union> set (FunctionGraphs (BlueprintStore h b))
          \<longrightarrow> \<not> FStringEq (GraphName (GraphStore h g)) fn)"
proof -
  have "FindGraphToDelete h b fn = None \<longleftrightarrow>
          FindGraphByName h (AllGraphs (BlueprintStore h b)) fn = None \<and>
          FindGraphByName h (FunctionGraphs (BlueprintStore h b)) fn = None"
    by (simp add: FindGraphToDelete_def split: option.splits)
  then show ?thesis
    by (auto simp: FindGraphByName_None_iff)
qed

lemma FieldNames_errors [simp]:
  "FieldNames (CommonUtils_CreateErrorResponse m) = [''success'', ''error'']"
  "FieldNames (CreateErrorResponse m) = [''success'', ''error'']"
  by (simp_all add: FieldNames_def CommonUtils_CreateErrorResponse_def CreateErrorResponse_def
      SetXField_defs)

text \<open>
  C8. delete_blueprint_function with a \<open>function_name\<close> that equals the name of no graph
  of the subject (neither among all graphs nor among the function graphs) returns the
  failure response ``Function graph not found'' and the host it was given: no graph is
  removed, nothing is marked modified, no file is written. This holds for the dispatcher's
  handler and for the command; the dispatcher's failure response is built by the helper
  modelled from the spec.
\<close>

theorem delete_unknown_function_fails_without_effect:
  assumes "TryGetStringField Params ''blueprint_path'' = Some BlueprintPath"
    and "TryGetStringField Params ''function_name'' = Some FunctionNameParam"
    and "\<forall>g. Some g \<in> set (AllGraphs (BlueprintStore h b)) \<union> set (FunctionGraphs (BlueprintStore h b))
          \<longrightarrow> \<not> FStringEq (GraphName (GraphStore h g)) FunctionNameParam"
  shows "(Dispatcher_LoadBlueprint h BlueprintPath = Some b \<longrightarrow>
            HandleDeleteBlueprintFunction h Params =
              (CommonUtils_CreateErrorResponse (''Function graph not found: '' @ FunctionNameParam), h) \<and>
            GetField ''success'' (fst (HandleDeleteBlueprintFunction h Params)) = Some (JBool False) \<and>
            FieldNames (fst (HandleDeleteBlueprintFunction h Params)) = [''success'', ''error'']) \<and>
         (Command_LoadBlueprint h BlueprintPath = Some b \<longrightarrow>
            DeleteBlueprintFunctionCommand_Execute h (Some Params) =
              (CreateErrorResponse (''Function graph not found: '' @ FunctionNameParam), h) \<and>
            GetField ''success'' (fst (DeleteBlueprintFunctionCommand_Execute h (Some Params)))
              = Some (JBool False) \<and>
            FieldNames (fst (DeleteBlueprintFunctionCommand_Execute h (Some Params)))
              = [''success'', ''error''])"
proof -
  have none: "FindGraphToDelete h b FunctionNameParam = None"
    using assms(3) by (simp only: FindGraphToDelete_None_iff)
  show ?thesis
    using assms(1,2) none
    by (simp add: HandleDeleteBlueprintFunction_def DeleteBlueprintFunctionCommand_Execute_def)
qed

theorem delete_unknown_function_fails_without_effect_witness:
  "GetField ''success'' (fst (HandleDeleteBlueprintFunction ex_host (ex_delete ''DoThing'')))
     = Some (JBool True) \<and>
   HandleDeleteBlueprintFunction ex_after_delete (ex_delete ''DoThing'') =
     (CommonUtils_CreateErrorResponse ''Function graph not found: DoThing'', ex_after_delete) \<and>
   DeleteBlueprintFunctionCommand_Execute ex_after_delete (Some (ex_delete ''DoThing'')) =
     (CreateErrorResponse ''Function graph not found: DoThing'', ex_after_delete)"
proof -
  have first: "GetField ''success'' (fst (HandleDeleteBlueprintFunction ex_host (ex_delete ''DoThing'')))
     = Some (JBool True)"
    by code_simp
  have p1: "TryGetStringField (ex_delete ''DoThing'') ''blueprint_path'' = Some ''/Game/BP_Player''"
    by code_simp
  have p2: "TryGetStringField (ex_delete ''DoThing'') ''function_name'' = Some ''DoThing''"
    by code_simp
  have g1: "AllGraphs (BlueprintStore ex_after_delete 0) = [Some 0]"
    by code_simp
  have g2: "FunctionGraphs (BlueprintStore ex_after_delete 0) = []"
    by code_simp
  have g3: "\<not> FStringEq (GraphName (GraphStore ex_after_delete 0)) ''DoThing''"
    by code_simp
  have p3: "\<forall>g. Some g \<in> set (AllGraphs (BlueprintStore ex_after_delete 0)) \<union>
                 set (FunctionGraphs (BlueprintStore ex_after_delete 0))
          \<longrightarrow> \<not> FStringEq (GraphName (GraphStore ex_after_delete g)) ''DoThing''"
    using g3 by (simp add: g1 g2)
  have l1: "Dispatcher_LoadBlueprint ex_after_delete ''/Game/BP_Player'' = Some 0"
    by code_simp
  have l2: "Command_LoadBlueprint ex_after_delete ''/Game/BP_Player'' = Some 0"
    by code_simp
  from delete_unknown_function_fails_without_effect [OF p1 p2 p3] l1 l2 first
  show ?thesis by simp
qed

section \<open>The response envelope\<close>

text \<open>
  C9. The claim says that every response carries a boolean \<open>success\<close>. On the example
  subject the dispatcher's get_blueprint_dependencies answers without a \<open>success\<close>
  field (and without \<open>error\<close>), while the command of the same operation answers with
  \<open>success = true\<close>.
\<close>

theorem dependencies_response_without_success:
  "GetField ''success''
     (HandleGetBlueprintDependencies ex_host ex_dependencies)
     = None \<and>
   GetField ''error''
     (HandleGetBlueprintDependencies ex_host ex_dependencies)
     = None \<and>
   GetField ''success''
     (GetBlueprintDependenciesCommand_Execute ex_host
        (Some ex_dependencies))
     = Some (JBool True)"
  by code_simp

section \<open>Dependency sets\<close>

lemma FStringEq_refl [simp]: "FStringEq a a"
  by (simp add: FStringEq_def)

lemma FStringEq_sym: "FStringEq a b \<Longrightarrow> FStringEq b a"
  by (simp add: FStringEq_def)

lemma FStringEq_trans: "FStringEq a b \<Longrightarrow> FStringEq b c \<Longrightarrow> FStringEq a c"
  by (simp add: FStringEq_def)

lemma TSet_Add_keys:
  "map (map ToLower) (TSet_Add x s) =
     (if map ToLower x \<in> set (map (map ToLower) s) then map (map ToLower) s
      else map (map ToLower) s @ [map ToLower x])"
  by (induction s) (auto simp: FStringEq_def)

lemma TSet_Add_distinct:
  "distinct (map (map ToLower) s) \<Longrightarrow> distinct (map (map ToLower) (TSet_Add x s))"
  by (simp add: TSet_Add_keys)

lemma TSet_Add_list_all:
  "P x \<Longrightarrow> list_all P s \<Longrightarrow> list_all P (TSet_Add x s)"
  by (induction s) auto

lemma Classified_empty:
  "Classified h \<lparr>AssetDependencies = [], BlueprintDependencies = [], NativeClasses = []\<rparr>"
  by (simp add: Classified_def)

lemma CollectDependencies_Classified:
  "Classified h sets \<Longrightarrow> Classified h (CollectDependencies h inc deps sets)"
proof (induction deps arbitrary: sets)
  case Nil
  then show ?case by simp
next
  case (Cons DepPath rest)
  have native: "StartsWith DepPath ''/Script/'' \<Longrightarrow>
      Classified h (sets\<lparr>NativeClasses := TSet_Add DepPath (NativeClasses sets)\<rparr>)"
    using Cons.prems
    by (simp add: Classified_def IsNativePath_def TSet_Add_distinct TSet_Add_list_all)
  have bp: "\<not> StartsWith DepPath ''/Script/'' \<Longrightarrow> IsBlueprintAsset h DepPath \<Longrightarrow>
      Classified h (sets\<lparr>BlueprintDependencies := TSet_Add DepPath (BlueprintDependencies sets)\<rparr>)"
    using Cons.prems
    by (simp add: Classified_def IsNativePath_def TSet_Add_distinct TSet_Add_list_all)
  have asset: "\<not> StartsWith DepPath ''/Script/'' \<Longrightarrow> \<not> IsBlueprintAsset h DepPath \<Longrightarrow>
      Classified h (sets\<lparr>AssetDependencies := TSet_Add DepPath (AssetDependencies sets)\<rparr>)"
    using Cons.prems
    by (simp add: Classified_def IsNativePath_def TSet_Add_distinct TSet_Add_list_all)
  show ?case
    using Cons.IH Cons.prems native bp asset
    by (auto simp: IsBlueprintAsset_def split: option.splits)
qed

lemma Classified_disjoint_distinct:
  assumes "Classified h sets"
  shows "distinct (AssetDependencies sets) \<and> distinct (BlueprintDependencies sets) \<and>
         distinct (NativeClasses sets) \<and>
         set (AssetDependencies sets) \<inter> set (BlueprintDependencies sets) = {} \<and>
         set (AssetDependencies sets) \<inter> set (NativeClasses sets) = {} \<and>
         set (BlueprintDependencies sets) \<inter> set (NativeClasses sets) = {}"
  using assms
  by (auto simp: Classified_def list_all_iff distinct_map)

lemma dependencies_body_sets:
  "\<exists>sets. Classified h sets \<and>
     GetField ''assets'' (GetBlueprintDependencies_body h b inc R)
       = Some (JArray (map JString (AssetDependencies sets))) \<and>
     GetField ''blueprints'' (GetBlueprintDependencies_body h b inc R)
       = Some (JArray (map JString (BlueprintDependencies sets))) \<and>
     GetField ''native_classes'' (GetBlueprintDependencies_body h b inc R)
       = Some (JArray (map JString (NativeClasses sets)))"
  by (rule exI[of _ "CollectDependencies h inc (GetDependencies h (PackageName (BlueprintStore h b)))
        \<lparr>AssetDependencies = [], BlueprintDependencies = [], NativeClasses = []\<rparr>"])
     (simp add: GetBlueprintDependencies_body_def Let_def SetXField_defs
        CollectDependencies_Classified Classified_empty)

lemma dependencies_body_disjoint:
  "\<exists>A B N. GetField ''assets'' (GetBlueprintDependencies_body h b inc R) = Some (JArray (map JString A)) \<and>
     GetField ''blueprints'' (GetBlueprintDependencies_body h b inc R) = Some (JArray (map JString B)) \<and>
     GetField ''native_classes'' (GetBlueprintDependencies_body h b inc R) = Some (JArray (map JString N)) \<and>
     distinct A \<and> distinct B \<and> distinct N \<and>
     set A \<inter> set B = {} \<and> set A \<inter> set N = {} \<and> set B \<inter> set N = {}"
proof -
  obtain sets where s: "Classified h sets"
     "GetField ''assets'' (GetBlueprintDependencies_body h b inc R)
       = Some (JArray (map JString (AssetDependencies sets)))"
     "GetField ''blueprints'' (GetBlueprintDependencies_body h b inc R)
       = Some (JArray (map JString (BlueprintDependencies sets)))"
     "GetField ''native_classes'' (GetBlueprintDependencies_body h b inc R)
       = Some (JArray (map JString (NativeClasses sets)))"
    using dependencies_body_sets by blast
  from Classified_disjoint_distinct[OF s(1)] s(2-4) show ?thesis
    by blast
qed

text \<open>
  C3. Whenever get_blueprint_dependencies finds its subject, the arrays \<open>assets\<close>,
  \<open>blueprints\<close> and \<open>native_classes\<close> of the response each hold no string twice,
  and no string is in two of them. This holds for the dispatcher's handler and for the
  command.
\<close>

theorem dependency_sets_disjoint_and_deduplicated:
  assumes "TryGetStringField Params ''blueprint_path'' = Some BlueprintPath"
  shows
    "(Dispatcher_LoadBlueprint h BlueprintPath = Some b \<longrightarrow>
        (\<exists>A B N.
           GetField ''assets'' (HandleGetBlueprintDependencies h Params) = Some (JArray (map JString A)) \<and>
           GetField ''blueprints'' (HandleGetBlueprintDependencies h Params) = Some (JArray (map JString B)) \<and>
           GetField ''native_classes'' (HandleGetBlueprintDependencies h Params) = Some (JArray (map JString N)) \<and>
           distinct A \<and> distinct B \<and> distinct N \<and>
           set A \<inter> set B = {} \<and> set A \<inter> set N = {} \<and> set B \<inter> set N = {})) \<and>
     (Command_LoadBlueprint h BlueprintPath = Some b \<longrightarrow>
        (\<exists>A B N.
           GetField ''assets'' (GetBlueprintDependenciesCommand_Execute h (Some Params))
             = Some (JArray (map JString A)) \<and>
           GetField ''blueprints'' (GetBlueprintDependenciesCommand_Execute h (Some Params))
             = Some (JArray (map JString B)) \<and>
           GetField ''native_classes'' (GetBlueprintDependenciesCommand_Execute h (Some Params))
             = Some (JArray (map JString N)) \<and>
           distinct A \<and> distinct B \<and> distinct N \<and>
           set A \<inter> set B = {} \<and> set A \<inter> set N = {} \<and> set B \<inter> set N = {}))"
proof (intro conjI impI)
  assume "Dispatcher_LoadBlueprint h BlueprintPath = Some b"
  with assms have "HandleGetBlueprintDependencies h Params =
      GetBlueprintDependencies_body h b (TryGetBoolField Params ''include_engine_classes'' False) []"
    by (simp add: HandleGetBlueprintDependencies_def)
  then show "\<exists>A B N.
      GetField ''assets'' (HandleGetBlueprintDependencies h Params) = Some (JArray (map JString A)) \<and>
      GetField ''blueprints'' (HandleGetBlueprintDependencies h Params) = Some (JArray (map JString B)) \<and>
      GetField ''native_classes'' (HandleGetBlueprintDependencies h Params) = Some (JArray (map JString N)) \<and>
      distinct A \<and> distinct B \<and> distinct N \<and>
      set A \<inter> set B = {} \<and> set A \<inter> set N = {} \<and> set B \<inter> set N = {}"
    by (simp only: dependencies_body_disjoint)
next
  assume "Command_LoadBlueprint h BlueprintPath = Some b"
  with assms have "GetBlueprintDependenciesCommand_Execute h (Some Params) =
      GetBlueprintDependencies_body h b (TryGetBoolField Params ''include_engine_classes'' False)
        (SetBoolField ''success'' True [])"
    by (simp add: GetBlueprintDependenciesCommand_Execute_def)
  then show "\<exists>A B N.
      GetField ''assets'' (GetBlueprintDependenciesCommand_Execute h (Some Params))
        = Some (JArray (map JString A)) \<and>
      GetField ''blueprints'' (GetBlueprintDependenciesCommand_Execute h (Some Params))
        = Some (JArray (map JString B)) \<and>
      GetField ''native_classes'' (GetBlueprintDependenciesCommand_Execute h (Some Params))
        = Some (JArray (map JString N)) \<and>
      distinct A \<and> distinct B \<and> distinct N \<and>
      set A \<inter> set B = {} \<and> set A \<inter> set N = {} \<and> set B \<inter> set N = {}"
    by (simp only: dependencies_body_disjoint)
qed

theorem dependency_sets_disjoint_and_deduplicated_witness:
  "TryGetStringField ex_dependencies ''blueprint_path'' = Some ''/Game/BP_Player'' \<and>
   Dispatcher_LoadBlueprint ex_host ''/Game/BP_Player'' = Some 0 \<and>
   GetField ''assets'' (HandleGetBlueprintDependencies ex_host ex_dependencies) =
     Some (JArray [JString ''/Game/Mesh'', JString ''/Game/Unknown'']) \<and>
   GetField ''blueprints'' (HandleGetBlueprintDependencies ex_host ex_dependencies) =
     Some (JArray [JString ''/game/bp_enemy'']) \<and>
   (\<exists>A B N.
      GetField ''assets'' (HandleGetBlueprintDependencies ex_host ex_dependencies)
        = Some (JArray (map JString A)) \<and>
      GetField ''blueprints'' (HandleGetBlueprintDependencies ex_host ex_dependencies)
        = Some (JArray (map JString B)) \<and>
      GetField ''native_classes'' (HandleGetBlueprintDependencies ex_host ex_dependencies)
        = Some (JArray (map JString N)) \<and>
      distinct A \<and> distinct B \<and> distinct N \<and>
      set A \<inter> set B = {} \<and> set A \<inter> set N = {} \<and> set B \<inter> set N = {})"
proof -
  have p1: "TryGetStringField ex_dependencies ''blueprint_path'' = Some ''/Game/BP_Player''"
    by code_simp
  have l: "Dispatcher_LoadBlueprint ex_host ''/Game/BP_Player'' = Some 0"
    by code_simp
  have a: "GetField ''assets'' (HandleGetBlueprintDependencies ex_host ex_dependencies) =
     Some (JArray [JString ''/Game/Mesh'', JString ''/Game/Unknown''])"
    by code_simp
  have b: "GetField ''blueprints'' (HandleGetBlueprintDependencies ex_host ex_dependencies) =
     Some (JArray [JString ''/game/bp_enemy''])"
    by code_simp
  from dependency_sets_disjoint_and_deduplicated [OF p1, of ex_host 0] l
  have "\<exists>A B N.
      GetField ''assets'' (HandleGetBlueprintDependencies ex_host ex_dependencies)
        = Some (JArray (map JString A)) \<and>
      GetField ''blueprints'' (HandleGetBlueprintDependencies ex_host ex_dependencies)
        = Some (JArray (map JString B)) \<and>
      GetField ''native_classes'' (HandleGetBlueprintDependencies ex_host ex_dependencies)
        = Some (JArray (map JString N)) \<and>
      distinct A \<and> distinct B \<and> distinct N \<and>
      set A \<inter> set B = {} \<and> set A \<inter> set N = {} \<and> set B \<inter> set N = {}"
    by blast
  with p1 l a b show ?thesis
    by blast
qed

section \<open>Function calls\<close>

lemma TMap_Increment_has_key:
  "(\<exists>e\<in>set (TMap_Increment k m). FStringEq (fst e) k') \<longleftrightarrow>
     FStringEq k k' \<or> (\<exists>e\<in>set m. FStringEq (fst e) k')"
proof (induction m)
  case Nil
  then show ?case by simp
next
  case (Cons e m)
  obtain k0 c where e: "e = (k0, c)" by (cases e)
  show ?case
    using Cons.IH
    by (auto simp: e dest: FStringEq_trans FStringEq_sym)
qed

lemma CountCalls_nodes_has_key:
  "(\<exists>e\<in>set (CountCalls_nodes h inc ns m). FStringEq (fst e) k) \<longleftrightarrow>
     (\<exists>e\<in>set m. FStringEq (fst e) k) \<or>
     (\<exists>F\<in>set (ResolvedCalls_nodes h ns). FStringEq (FunctionKey F) k \<and> CountsCall inc F)"
proof (induction ns arbitrary: m)
  case Nil
  then show ?case by simp
next
  case (Cons Node rest)
  show ?case
  proof (cases "CastCallFunction h Node")
    case None
    then show ?thesis using Cons.IH by simp
  next
    case (Some p)
    obtain CallNode T where p: "p = (CallNode, T)" by (cases p)
    show ?thesis
    proof (cases T)
      case None
      then show ?thesis using Cons.IH Some p by simp
    next
      case (Some Function)
      then show ?thesis
        using Cons.IH[of m] Cons.IH[of "TMap_Increment (FunctionKey Function) m"]
          \<open>CastCallFunction h Node = Some p\<close> p TMap_Increment_has_key[of "FunctionKey Function" m k]
        by (cases "CountsCall inc Function") auto
    qed
  qed
qed

lemma CountCalls_graphs_has_key:
  "(\<exists>e\<in>set (CountCalls_graphs h inc gs m). FStringEq (fst e) k) \<longleftrightarrow>
     (\<exists>e\<in>set m. FStringEq (fst e) k) \<or>
     (\<exists>F\<in>set (ResolvedCalls h gs). FStringEq (FunctionKey F) k \<and> CountsCall inc F)"
proof (induction gs arbitrary: m)
  case Nil
  then show ?case by simp
next
  case (Cons Graph rest)
  show ?case
  proof (cases Graph)
    case None
    then show ?thesis using Cons.IH by simp
  next
    case (Some g)
    then show ?thesis
      using Cons.IH[of "CountCalls_nodes h inc (Nodes (GraphStore h g)) m"]
        CountCalls_nodes_has_key[of h inc "Nodes (GraphStore h g)" m k]
      by auto
  qed
qed

lemma CountsCall_unset:
  "CountsCall False F \<longleftrightarrow>
     \<not> (StartsWith (FunctionKey F) ''U'' \<and>
        (\<exists>Owner. OwnerClass F = Some Owner \<and> StartsWith (ClassPathName Owner) ''/Script/Engine''))"
  by (auto simp: CountsCall_def split: option.splits)

lemma dependencies_body_function_calls:
  "\<exists>FunctionCalls.
     GetField ''function_calls'' (GetBlueprintDependencies_body h b inc R)
       = Some (JArray (map FuncJson FunctionCalls)) \<and>
     (\<forall>k. (\<exists>e\<in>set FunctionCalls. FStringEq (fst e) k) \<longleftrightarrow>
          (\<exists>F\<in>set (ResolvedCalls h (AllGraphs (BlueprintStore h b))).
              FStringEq (FunctionKey F) k \<and> CountsCall inc F))"
  by (rule exI[of _ "CountCalls_graphs h inc (AllGraphs (BlueprintStore h b)) []"])
     (simp add: GetBlueprintDependencies_body_def Let_def SetXField_defs CountCalls_graphs_has_key)

text \<open>
  What the filter of the counting loop computes. With \<open>include_engine_classes\<close> not set,
  a resolved call is left out of the count only if its key \<open>OwningType::FunctionName\<close>
  starts with \<open>U\<close> and its function has an owner class whose path starts with
  \<open>/Script/Engine\<close>; so a key is present in \<open>function_calls\<close> exactly when some
  resolved call of the subject has that key (compared as the map compares keys) and is
  not such a call. This holds for the dispatcher's handler and for the command.
\<close>

lemma function_calls_filter:
  assumes "TryGetStringField Params ''blueprint_path'' = Some BlueprintPath"
    and "\<not> TryGetBoolField Params ''include_engine_classes'' False"
  shows
    "(Dispatcher_LoadBlueprint h BlueprintPath = Some b \<longrightarrow>
        (\<exists>FunctionCalls.
           GetField ''function_calls'' (HandleGetBlueprintDependencies h Params)
             = Some (JArray (map FuncJson FunctionCalls)) \<and>
           (\<forall>k. (\<exists>e\<in>set FunctionCalls. FStringEq (fst e) k) \<longleftrightarrow>
                (\<exists>F\<in>set (ResolvedCalls h (AllGraphs (BlueprintStore h b))).
                    FStringEq (FunctionKey F) k \<and>
                    \<not> (StartsWith (FunctionKey F) ''U'' \<and>
                       (\<exists>Owner. OwnerClass F = Some Owner \<and>
                          StartsWith (ClassPathName Owner) ''/Script/Engine'')))))) \<and>
     (Command_LoadBlueprint h BlueprintPath = Some b \<longrightarrow>
        (\<exists>FunctionCalls.
           GetField ''function_calls'' (GetBlueprintDependenciesCommand_Execute h (Some Params))
             = Some (JArray (map FuncJson FunctionCalls)) \<and>
           (\<forall>k. (\<exists>e\<in>set FunctionCalls. FStringEq (fst e) k) \<longleftrightarrow>
                (\<exists>F\<in>set (ResolvedCalls h (AllGraphs (BlueprintStore h b))).
                    FStringEq (FunctionKey F) k \<and>
                    \<not> (StartsWith (FunctionKey F) ''U'' \<and>
                       (\<exists>Owner. OwnerClass F = Some Owner \<and>
                          StartsWith (ClassPathName Owner) ''/Script/Engine''))))))"
proof (intro conjI impI)
  assume "Dispatcher_LoadBlueprint h BlueprintPath = Some b"
  with assms have "HandleGetBlueprintDependencies h Params =
      GetBlueprintDependencies_body h b False []"
    by (simp add: HandleGetBlueprintDependencies_def)
  then show "\<exists>FunctionCalls.
           GetField ''function_calls'' (HandleGetBlueprintDependencies h Params)
             = Some (JArray (map FuncJson FunctionCalls)) \<and>
           (\<forall>k. (\<exists>e\<in>set FunctionCalls. FStringEq (fst e) k) \<longleftrightarrow>
                (\<exists>F\<in>set (ResolvedCalls h (AllGraphs (BlueprintStore h b))).
                    FStringEq (FunctionKey F) k \<and>
                    \<not> (StartsWith (FunctionKey F) ''U'' \<and>
                       (\<exists>Owner. OwnerClass F = Some Owner \<and>
                          StartsWith (ClassPathName Owner) ''/Script/Engine''))))"
    using dependencies_body_function_calls[of h b False "[]"]
    by (simp only: CountsCall_unset)
next
  assume "Command_LoadBlueprint h BlueprintPath = Some b"
  with assms have "GetBlueprintDependenciesCommand_Execute h (Some Params) =
      GetBlueprintDependencies_body h b False (SetBoolField ''success'' True [])"
    by (simp add: GetBlueprintDependenciesCommand_Execute_def)
  then show "\<exists>FunctionCalls.
           GetField ''function_calls'' (GetBlueprintDependenciesCommand_Execute h (Some Params))
             = Some (JArray (map FuncJson FunctionCalls)) \<and>
           (\<forall>k. (\<exists>e\<in>set FunctionCalls. FStringEq (fst e) k) \<longleftrightarrow>
                (\<exists>F\<in>set (ResolvedCalls h (AllGraphs (BlueprintStore h b))).
                    FStringEq (FunctionKey F) k \<and>
                    \<not> (StartsWith (FunctionKey F) ''U'' \<and>
                       (\<exists>Owner. OwnerClass F = Some Owner \<and>
                          StartsWith (ClassPathName Owner) ''/Script/Engine''))))"
    using dependencies_body_function_calls[of h b False "SetBoolField ''success'' True []"]
    by (simp only: CountsCall_unset)
qed

lemma function_calls_filter_example:
  "TryGetStringField ex_dependencies ''blueprint_path'' = Some ''/Game/BP_Player'' \<and>
   \<not> TryGetBoolField ex_dependencies ''include_engine_classes'' False \<and>
   Dispatcher_LoadBlueprint ex_host ''/Game/BP_Player'' = Some 0 \<and>
   ResolvedCalls ex_host (AllGraphs (BlueprintStore ex_host 0)) =
     [ex_OldFunc, ex_OldFunc, ex_PrintString, ex_GetDPIScale] \<and>
   StartsWith (FunctionKey ex_GetDPIScale) ''U'' \<and>
   GetField ''function_calls'' (HandleGetBlueprintDependencies ex_host ex_dependencies) =
     Some (JArray [FuncJson (''BP_Player_C::OldFunc'', 2),
                   FuncJson (''KismetSystemLibrary::PrintString'', 1)]) \<and>
   (\<exists>FunctionCalls.
      GetField ''function_calls'' (HandleGetBlueprintDependencies ex_host ex_dependencies)
        = Some (JArray (map FuncJson FunctionCalls)) \<and>
      (\<forall>k. (\<exists>e\<in>set FunctionCalls. FStringEq (fst e) k) \<longleftrightarrow>
           (\<exists>F\<in>set (ResolvedCalls ex_host (AllGraphs (BlueprintStore ex_host 0))).
               FStringEq (FunctionKey F) k \<and>
               \<not> (StartsWith (FunctionKey F) ''U'' \<and>
                  (\<exists>Owner. OwnerClass F = Some Owner \<and>
                     StartsWith (ClassPathName Owner) ''/Script/Engine'')))))"
proof -
  have p1: "TryGetStringField ex_dependencies ''blueprint_path'' = Some ''/Game/BP_Player''"
    by code_simp
  have p2: "\<not> TryGetBoolField ex_dependencies ''include_engine_classes'' False"
    by code_simp
  have l: "Dispatcher_LoadBlueprint ex_host ''/Game/BP_Player'' = Some 0"
    by code_simp
  have r: "ResolvedCalls ex_host (AllGraphs (BlueprintStore ex_host 0)) =
     [ex_OldFunc, ex_OldFunc, ex_PrintString, ex_GetDPIScale]"
    by code_simp
  have u: "StartsWith (FunctionKey ex_GetDPIScale) ''U''"
    by code_simp
  have v: "GetField ''function_calls'' (HandleGetBlueprintDependencies ex_host ex_dependencies) =
     Some (JArray [FuncJson (''BP_Player_C::OldFunc'', 2),
                   FuncJson (''KismetSystemLibrary::PrintString'', 1)])"
    by code_simp
  from function_calls_filter [OF p1 p2, of ex_host 0] l
  have "\<exists>FunctionCalls.
      GetField ''function_calls'' (HandleGetBlueprintDependencies ex_host ex_dependencies)
        = Some (JArray (map FuncJson FunctionCalls)) \<and>
      (\<forall>k. (\<exists>e\<in>set FunctionCalls. FStringEq (fst e) k) \<longleftrightarrow>
           (\<exists>F\<in>set (ResolvedCalls ex_host (AllGraphs (BlueprintStore ex_host 0))).
               FStringEq (FunctionKey F) k \<and>
               \<not> (StartsWith (FunctionKey F) ''U'' \<and>
                  (\<exists>Owner. OwnerClass F = Some Owner \<and>
                     StartsWith (ClassPathName Owner) ''/Script/Engine''))))"
    by blast
  with p1 p2 l r u v show ?thesis
    by blast
qed

text \<open>
  C2. The claim fails on the code. The key is built from the reflected class name, which
  has no \<open>U\<close> or \<open>A\<close> prefix, and the filter only drops a call whose key starts
  with \<open>U\<close>. On the second example subject, with \<open>include_engine_classes\<close> not set, the
  calls of \<open>Actor::K2_DestroyActor\<close> and \<open>KismetSystemLibrary::PrintString\<close>, both of
  classes under \<open>/Script/Engine\<close>, are in \<open>function_calls\<close>; of the four resolved calls
  only those of \<open>UserInterfaceSettings\<close> (an engine class whose name happens to start
  with \<open>U\<close>) and of the project class \<open>UpgradeStation\<close> of the module \<open>EngineRoom\<close> are
  left out. The dependency loop of the same response does drop the package
  \<open>/Script/Engine\<close>: \<open>native_classes\<close> is empty. The dispatcher's handler and the command
  answer alike.
\<close>

theorem engine_calls_kept_in_function_calls:
  "\<not> TryGetBoolField ex_dependencies ''include_engine_classes'' False \<and>
   ResolvedCalls ex_engine_host (AllGraphs (BlueprintStore ex_engine_host 0)) =
     [ex_DestroyActor, ex_Upgrade, ex_PrintString, ex_GetDPIScale] \<and>
   map FunctionKey [ex_DestroyActor, ex_Upgrade, ex_PrintString, ex_GetDPIScale] =
     [''Actor::K2_DestroyActor'', ''UpgradeStation::Upgrade'',
      ''KismetSystemLibrary::PrintString'', ''UserInterfaceSettings::GetDPIScaleBasedOnSize''] \<and>
   map (map_option ClassPathName \<circ> OwnerClass)
       [ex_DestroyActor, ex_Upgrade, ex_PrintString, ex_GetDPIScale] =
     [Some ''/Script/Engine.Actor'', Some ''/Script/EngineRoom.UpgradeStation'',
      Some ''/Script/Engine.KismetSystemLibrary'', Some ''/Script/Engine.UserInterfaceSettings''] \<and>
   GetField ''function_calls'' (HandleGetBlueprintDependencies ex_engine_host ex_dependencies) =
     Some (JArray
       [JObject [(''function'', JString ''Actor::K2_DestroyActor''), (''call_count'', JNumber 1)],
        JObject [(''function'', JString ''KismetSystemLibrary::PrintString''),
                 (''call_count'', JNumber 1)]]) \<and>
   GetField ''function_calls''
       (GetBlueprintDependenciesCommand_Execute ex_engine_host (Some ex_dependencies)) =
     Some (JArray
       [JObject [(''function'', JString ''Actor::K2_DestroyActor''), (''call_count'', JNumber 1)],
        JObject [(''function'', JString ''KismetSystemLibrary::PrintString''),
                 (''call_count'', JNumber 1)]]) \<and>
   ''/Script/Engine'' \<in> set (GetDependencies ex_engine_host ''/Game/BP_Player'') \<and>
   GetField ''native_classes'' (HandleGetBlueprintDependencies ex_engine_host ex_dependencies) =
     Some (JArray []) \<and>
   GetField ''native_classes''
       (GetBlueprintDependenciesCommand_Execute ex_engine_host (Some ex_dependencies)) =
     Some (JArray [])"
  by code_simp

section \<open>Serializer: stored order\<close>

lemma SerializePin_connections_eq:
  "SerializePin_connections h ls acc = acc @ map (ConnectionDoc h) (Connections ls)"
proof (induction ls arbitrary: acc)
  case Nil
  then show ?case by simp
next
  case (Cons l ls)
  then show ?case
    by (cases l) (auto simp: ConnectionDoc_def SetStringField_def Let_def split: option.splits)
qed


lemma SerializePin_PinFields: "SerializePin h (Some P) True = Some (PinFields h P)"
  by (simp add: PinFields_def SerializePin_def Let_def)

lemma SerializeNode_pins_eq:
  "SerializeNode_pins h ps (ins, outs) =
     (ins @ map (\<lambda>P. JObject (PinFields h P)) (filter (\<lambda>P. Direction P = EGPD_Input) (NonNull ps)),
      outs @ map (\<lambda>P. JObject (PinFields h P)) (filter (\<lambda>P. Direction P \<noteq> EGPD_Input) (NonNull ps)))"
proof (induction ps arbitrary: ins outs)
  case Nil
  then show ?case by simp
next
  case (Cons p ps)
  then show ?case
    by (cases p) (simp_all add: SerializePin_PinFields)
qed

lemma GetField_SerializeNode_kind:
  "k \<notin> {''node_type'', ''function_name'', ''function_class'', ''function_class_path'', ''is_pure'',
         ''event_name'', ''event_class'', ''variable_name'', ''action_name'', ''macro_name''} \<Longrightarrow>
   GetField k (SerializeNode_kind kind obj) = GetField k obj"
  by (cases kind) (auto simp: SetXField_defs Let_def split: option.splits)

lemma SerializeNode_NodeFields: "SerializeNode h (Some a) = Some (NodeFields h a)"
  by (simp add: NodeFields_def SerializeNode_def Let_def split: prod.splits)

lemma NodeFields_guid:
  "GetField ''guid'' (NodeFields h a) = Some (JString (NodeGuid (NodeStore h a)))"
  by (simp add: NodeFields_def SerializeNode_def Let_def SetXField_defs GetField_SerializeNode_kind
      split: prod.splits)

lemma NodeFields_input_pins:
  "GetField ''input_pins'' (NodeFields h a) =
     Some (JArray (map (\<lambda>P. JObject (PinFields h P))
       (filter (\<lambda>P. Direction P = EGPD_Input) (NonNull (Pins (NodeStore h a))))))"
  by (simp add: NodeFields_def SerializeNode_def Let_def SetXField_defs SerializeNode_pins_eq)

lemma NodeFields_output_pins:
  "GetField ''output_pins'' (NodeFields h a) =
     Some (JArray (map (\<lambda>P. JObject (PinFields h P))
       (filter (\<lambda>P. Direction P \<noteq> EGPD_Input) (NonNull (Pins (NodeStore h a))))))"
  by (simp add: NodeFields_def SerializeNode_def Let_def SetXField_defs SerializeNode_pins_eq)

lemma PinFields_name: "GetField ''name'' (PinFields h P) = Some (JString (PinName P))"
  by (simp add: PinFields_def SerializePin_def Let_def SetXField_defs split: option.splits)

lemma PinFields_connections:
  "GetField ''connections'' (PinFields h P) =
     (if LinkedTo P = [] then None
      else Some (JArray (map (ConnectionDoc h) (Connections (LinkedTo P)))))"
  by (simp add: PinFields_def SerializePin_def Let_def SetXField_defs SerializePin_connections_eq
      split: option.splits)

lemma SerializeGraph_nodes_eq:
  "SerializeGraph_nodes h ns acc = acc @ map (\<lambda>a. JObject (NodeFields h a)) (NonNull ns)"
proof (induction ns arbitrary: acc)
  case Nil
  then show ?case by simp
next
  case (Cons n ns)
  then show ?case
    by (cases n) (simp_all add: SerializeNode_NodeFields)
qed

lemma SerializeGraph_nodes_field:
  "\<exists>doc. SerializeGraph h (Some g) d = Some doc \<and>
     GetField ''nodes'' doc =
       Some (JArray (map (\<lambda>a. JObject (NodeFields h a)) (NonNull (Nodes (GraphStore h g)))))"
  by (simp add: SerializeGraph_def Let_def SetXField_defs SerializeGraph_nodes_eq)

text \<open>The document depends on the host only through the graph and node stores.\<close>

lemma SerializePin_connections_frame:
  assumes "NodeStore h2 = NodeStore h"
  shows "SerializePin_connections h2 ls acc = SerializePin_connections h ls acc"
  by (induction ls arbitrary: acc) (auto simp: Let_def assms split: option.splits)

lemma SerializePin_frame:
  assumes "NodeStore h2 = NodeStore h"
  shows "SerializePin h2 P c = SerializePin h P c"
  by (cases P) (simp_all add: SerializePin_def Let_def SerializePin_connections_frame[OF assms])

lemma SerializeNode_pins_frame:
  assumes "NodeStore h2 = NodeStore h"
  shows "SerializeNode_pins h2 ps acc = SerializeNode_pins h ps acc"
proof (induction ps arbitrary: acc)
  case Nil
  then show ?case by simp
next
  case (Cons p ps)
  obtain ins outs where acc: "acc = (ins, outs)" by (cases acc)
  from Cons show ?case
    by (cases p) (auto simp: acc SerializePin_frame[OF assms] split: option.splits)
qed

lemma SerializeNode_frame:
  assumes "NodeStore h2 = NodeStore h"
  shows "SerializeNode h2 n = SerializeNode h n"
  by (cases n) (simp_all add: SerializeNode_def Let_def SerializeNode_pins_frame[OF assms] assms)

lemma SerializeGraph_nodes_frame:
  assumes "NodeStore h2 = NodeStore h"
  shows "SerializeGraph_nodes h2 ns acc = SerializeGraph_nodes h ns acc"
  by (induction ns arbitrary: acc) (auto simp: SerializeNode_frame[OF assms] split: option.splits)

lemma SerializeGraph_frame:
  assumes "GraphStore h2 = GraphStore h" and "NodeStore h2 = NodeStore h"
  shows "SerializeGraph h2 G d = SerializeGraph h G d"
  by (cases G) (simp_all add: SerializeGraph_def Let_def SerializeGraph_nodes_frame[OF assms(2)] assms(1))

text \<open>
  C1. Serializing a graph again gives the same document as long as the graph and its
  nodes are as they were, whatever else of the host has changed, and with the same flag.
  In the document the \<open>nodes\<close> array holds the documents of the graph's non-null nodes
  in the order of the graph's node array; a node's \<open>input_pins\<close> and \<open>output_pins\<close>
  hold the documents of its non-null pins of that direction in the order of its pin
  array; and a pin's \<open>connections\<close> hold its links (those that lead to a pin with an
  owning node) in the order of \<open>LinkedTo\<close>. Nothing is sorted or hashed.
\<close>

theorem serialization_deterministic_in_stored_order:
  assumes "GraphStore h2 = GraphStore h" and "NodeStore h2 = NodeStore h"
  shows "SerializeGraph h2 (Some g) d = SerializeGraph h (Some g) d \<and>
    (\<exists>doc. SerializeGraph h (Some g) d = Some doc \<and>
       GetField ''nodes'' doc =
         Some (JArray (map (\<lambda>a. JObject (NodeFields h a)) (NonNull (Nodes (GraphStore h g)))))) \<and>
    (\<forall>a. GetField ''guid'' (NodeFields h a) = Some (JString (NodeGuid (NodeStore h a))) \<and>
         GetField ''input_pins'' (NodeFields h a) =
           Some (JArray (map (\<lambda>P. JObject (PinFields h P))
             (filter (\<lambda>P. Direction P = EGPD_Input) (NonNull (Pins (NodeStore h a)))))) \<and>
         GetField ''output_pins'' (NodeFields h a) =
           Some (JArray (map (\<lambda>P. JObject (PinFields h P))
             (filter (\<lambda>P. Direction P \<noteq> EGPD_Input) (NonNull (Pins (NodeStore h a))))))) \<and>
    (\<forall>P. GetField ''name'' (PinFields h P) = Some (JString (PinName P)) \<and>
         GetField ''connections'' (PinFields h P) =
           (if LinkedTo P = [] then None
            else Some (JArray (map (ConnectionDoc h) (Connections (LinkedTo P))))))"
  using SerializeGraph_frame[OF assms] SerializeGraph_nodes_field[of h g d]
  by (simp only: NodeFields_guid NodeFields_input_pins NodeFields_output_pins PinFields_name
      PinFields_connections) simp

theorem serialization_deterministic_in_stored_order_witness:
  "GraphStore ex_later_host = GraphStore ex_host \<and> NodeStore ex_later_host = NodeStore ex_host \<and>
   Events ex_later_host \<noteq> Events ex_host \<and>
   SerializeGraph ex_later_host (Some 0) True = SerializeGraph ex_host (Some 0) True \<and>
   Nodes (GraphStore ex_host 0) = [Some 0, Some 1, None, Some 2, Some 3, Some 5] \<and>
   map (\<lambda>a. GetField ''guid'' (NodeFields ex_host a)) (NonNull (Nodes (GraphStore ex_host 0))) =
     [Some (JString ''N0''), Some (JString ''N1''), Some (JString ''N2''), Some (JString ''N3''),
      Some (JString ''N5'')] \<and>
   map PinName (NonNull (Pins (NodeStore ex_host 1))) = [''execute'', ''then'', ''self''] \<and>
   GetField ''input_pins'' (NodeFields ex_host 1) =
     Some (JArray [JObject (PinFields ex_host (ex_pin ''execute'' EGPD_Input
                      [Some \<lparr>OwningNode = Some 0, LinkedPinName = ''then''\<rparr>])),
                   JObject (PinFields ex_host (ex_pin ''self'' EGPD_Input []))]) \<and>
   (\<exists>doc. SerializeGraph ex_host (Some 0) True = Some doc \<and>
      GetField ''nodes'' doc =
        Some (JArray (map (\<lambda>a. JObject (NodeFields ex_host a))
                (NonNull (Nodes (GraphStore ex_host 0))))))"
proof -
  have g: "GraphStore ex_later_host = GraphStore ex_host"
    by (simp add: ex_later_host_def)
  have n: "NodeStore ex_later_host = NodeStore ex_host"
    by (simp add: ex_later_host_def)
  have d: "Events ex_later_host \<noteq> Events ex_host"
    by code_simp
  have ns: "Nodes (GraphStore ex_host 0) = [Some 0, Some 1, None, Some 2, Some 3, Some 5]"
    by code_simp
  have gs: "map (\<lambda>a. GetField ''guid'' (NodeFields ex_host a)) (NonNull (Nodes (GraphStore ex_host 0))) =
     [Some (JString ''N0''), Some (JString ''N1''), Some (JString ''N2''), Some (JString ''N3''),
      Some (JString ''N5'')]"
    by code_simp
  have ps: "map PinName (NonNull (Pins (NodeStore ex_host 1))) = [''execute'', ''then'', ''self'']"
    by code_simp
  have ips: "GetField ''input_pins'' (NodeFields ex_host 1) =
     Some (JArray [JObject (PinFields ex_host (ex_pin ''execute'' EGPD_Input
                      [Some \<lparr>OwningNode = Some 0, LinkedPinName = ''then''\<rparr>])),
                   JObject (PinFields ex_host (ex_pin ''self'' EGPD_Input []))])"
    by code_simp
  note t = serialization_deterministic_in_stored_order [OF g n, of 0 True]
  from t have t1: "SerializeGraph ex_later_host (Some 0) True = SerializeGraph ex_host (Some 0) True"
    by (rule conjunct1)
  from t have t2: "\<exists>doc. SerializeGraph ex_host (Some 0) True = Some doc \<and>
      GetField ''nodes'' doc =
        Some (JArray (map (\<lambda>a. JObject (NodeFields ex_host a))
                (NonNull (Nodes (GraphStore ex_host 0)))))"
    by (rule conjunct1 [OF conjunct2])
  from g n d t1 ns gs ps ips t2 show ?thesis
    by (intro conjI)
qed

section \<open>Delete command's serializer\<close>

lemma Restrict_Nil [simp]: "Restrict ks [] = []"
  by (simp add: Restrict_def)

lemma Restrict_Cons [simp]:
  "Restrict ks ((k, v) # obj) =
     (if k \<in> set ks then (k, v) # Restrict ks obj else Restrict ks obj)"
  by (simp add: Restrict_def)

lemma Restrict_SetField:
  "Restrict ks (SetField k v obj) =
     (if k \<in> set ks then SetField k v (Restrict ks obj) else Restrict ks obj)"
  by (induction obj) (auto simp: Restrict_def)

lemma Delete_PinFields_Restrict:
  "Delete_PinFields h P =
     Restrict [''name'', ''direction'', ''category'', ''subcategory'', ''default_value'', ''connections'']
       (PinFields h P)"
  by (simp add: Delete_PinFields_def PinFields_def Delete_SerializePin_def SerializePin_def Let_def
      SetXField_defs Restrict_SetField split: option.splits)

lemma Restrict_SerializeNode_kind:
  "set ks \<inter> {''node_type'', ''function_name'', ''function_class'', ''function_class_path'', ''is_pure'',
         ''event_name'', ''event_class'', ''variable_name'', ''action_name'', ''macro_name''} = {} \<Longrightarrow>
   Restrict ks (SerializeNode_kind kind obj) = Restrict ks obj"
  by (cases kind) (auto simp: SetXField_defs Let_def Restrict_SetField split: option.splits)

lemma Delete_SerializeNode_pins_eq:
  "Delete_SerializeNode_pins h ps acc = acc @ map (\<lambda>P. JObject (Delete_PinFields h P)) (NonNull ps)"
proof (induction ps arbitrary: acc)
  case Nil
  then show ?case by simp
next
  case (Cons p ps)
  then show ?case
    by (cases p) (simp_all add: Delete_PinFields_def Delete_SerializePin_def Let_def)
qed

lemma Delete_NodeFields_names:
  "FieldNames (Delete_NodeFields h a) = [''guid'', ''class'', ''title'', ''pos_x'', ''pos_y'', ''pins'']"
  by (simp add: Delete_NodeFields_def Delete_SerializeNode_def Let_def SetXField_defs FieldNames_def)

lemma Delete_NodeFields_pins:
  "GetField ''pins'' (Delete_NodeFields h a) =
     Some (JArray (map (\<lambda>P. JObject (Delete_PinFields h P)) (NonNull (Pins (NodeStore h a)))))"
  by (simp add: Delete_NodeFields_def Delete_SerializeNode_def Let_def SetXField_defs
      Delete_SerializeNode_pins_eq)

lemma Delete_NodeFields_Restrict:
  "Restrict [''guid'', ''class'', ''title'', ''pos_x'', ''pos_y''] (Delete_NodeFields h a) =
   Restrict [''guid'', ''class'', ''title'', ''pos_x'', ''pos_y''] (NodeFields h a)"
  by (simp add: Delete_NodeFields_def Delete_SerializeNode_def NodeFields_def SerializeNode_def
      Let_def SetXField_defs Restrict_SetField Restrict_SerializeNode_kind split: prod.splits)

lemma Delete_SerializeGraph_nodes_eq:
  "Delete_SerializeGraph_nodes h ns acc = acc @ map (\<lambda>a. JObject (Delete_NodeFields h a)) (NonNull ns)"
proof (induction ns arbitrary: acc)
  case Nil
  then show ?case by simp
next
  case (Cons n ns)
  then show ?case
    by (cases n) (simp_all add: Delete_NodeFields_def Delete_SerializeNode_def Let_def)
qed

lemma Delete_SerializeGraph_header:
  "\<exists>dd md. Delete_SerializeGraph h (Some g) d = Some dd \<and> SerializeGraph h (Some g) d = Some md \<and>
     Restrict [''name'', ''class'', ''node_count''] dd = Restrict [''name'', ''class'', ''node_count''] md \<and>
     GetField ''nodes'' dd =
       Some (JArray (map (\<lambda>a. JObject (Delete_NodeFields h a)) (NonNull (Nodes (GraphStore h g))))) \<and>
     GetField ''nodes'' md =
       Some (JArray (map (\<lambda>a. JObject (NodeFields h a)) (NonNull (Nodes (GraphStore h g)))))"
  by (simp add: Delete_SerializeGraph_def SerializeGraph_def Let_def SetXField_defs Restrict_SetField
      Delete_SerializeGraph_nodes_eq SerializeGraph_nodes_eq)

text \<open>
  What the delete command's own serializer writes. Its document has the same \<open>name\<close>,
  \<open>class\<close> and \<open>node_count\<close> as the document of the dispatcher's serializer and the
  same nodes in the same order; but a node has only \<open>guid\<close>, \<open>class\<close>, \<open>title\<close>,
  \<open>pos_x\<close>, \<open>pos_y\<close> (with the dispatcher's values) and one \<open>pins\<close> array of all
  its non-null pins in stored order, and a pin has only the dispatcher's \<open>name\<close>,
  \<open>direction\<close>, \<open>category\<close>, \<open>subcategory\<close>, \<open>default_value\<close> and
  \<open>connections\<close>.
\<close>

lemma delete_serializer_fields:
  "(\<exists>dd md. Delete_SerializeGraph h (Some g) True = Some dd \<and> SerializeGraph h (Some g) True = Some md \<and>
      Restrict [''name'', ''class'', ''node_count''] dd = Restrict [''name'', ''class'', ''node_count''] md \<and>
      GetField ''nodes'' dd =
        Some (JArray (map (\<lambda>a. JObject (Delete_NodeFields h a)) (NonNull (Nodes (GraphStore h g))))) \<and>
      GetField ''nodes'' md =
        Some (JArray (map (\<lambda>a. JObject (NodeFields h a)) (NonNull (Nodes (GraphStore h g)))))) \<and>
   (\<forall>a. FieldNames (Delete_NodeFields h a) =
          [''guid'', ''class'', ''title'', ''pos_x'', ''pos_y'', ''pins''] \<and>
        Restrict [''guid'', ''class'', ''title'', ''pos_x'', ''pos_y''] (Delete_NodeFields h a) =
          Restrict [''guid'', ''class'', ''title'', ''pos_x'', ''pos_y''] (NodeFields h a) \<and>
        GetField ''pins'' (Delete_NodeFields h a) =
          Some (JArray (map (\<lambda>P. JObject (Delete_PinFields h P)) (NonNull (Pins (NodeStore h a)))))) \<and>
   (\<forall>P. Delete_PinFields h P =
          Restrict [''name'', ''direction'', ''category'', ''subcategory'', ''default_value'',
                    ''connections''] (PinFields h P))"
  using Delete_SerializeGraph_header[of h g True] Delete_PinFields_Restrict[of h]
  by (simp only: Delete_NodeFields_names Delete_NodeFields_Restrict Delete_NodeFields_pins) simp

lemma delete_serializer_fields_example:
  "FieldNames (Delete_NodeFields ex_host 1) =
     [''guid'', ''class'', ''title'', ''pos_x'', ''pos_y'', ''pins''] \<and>
   FieldNames (NodeFields ex_host 1) =
     [''guid'', ''class'', ''title'', ''pos_x'', ''pos_y'', ''comment'', ''comment_bubble_visible'',
      ''node_type'', ''function_name'', ''function_class'', ''function_class_path'', ''is_pure'',
      ''input_pins'', ''output_pins''] \<and>
   Restrict [''guid'', ''class'', ''title'', ''pos_x'', ''pos_y''] (Delete_NodeFields ex_host 1) =
     [(''guid'', JString ''N1''), (''class'', JString ''K2Node_CallFunction''),
      (''title'', JString ''K2Node_CallFunction''), (''pos_x'', JNumber 0), (''pos_y'', JNumber 0)] \<and>
   Restrict [''guid'', ''class'', ''title'', ''pos_x'', ''pos_y''] (Delete_NodeFields ex_host 1) =
     Restrict [''guid'', ''class'', ''title'', ''pos_x'', ''pos_y''] (NodeFields ex_host 1)"
proof -
  have a: "FieldNames (NodeFields ex_host 1) =
     [''guid'', ''class'', ''title'', ''pos_x'', ''pos_y'', ''comment'', ''comment_bubble_visible'',
      ''node_type'', ''function_name'', ''function_class'', ''function_class_path'', ''is_pure'',
      ''input_pins'', ''output_pins'']"
    by code_simp
  have b: "Restrict [''guid'', ''class'', ''title'', ''pos_x'', ''pos_y''] (Delete_NodeFields ex_host 1) =
     [(''guid'', JString ''N1''), (''class'', JString ''K2Node_CallFunction''),
      (''title'', JString ''K2Node_CallFunction''), (''pos_x'', JNumber 0), (''pos_y'', JNumber 0)]"
    by code_simp
  from delete_serializer_fields [of ex_host 0] a b show ?thesis
    by simp
qed

text \<open>
  C7. The claim fails on the code. For the same request on the same subject the
  dispatcher's delete handler writes the full document of the function graph into the
  backup file, and the delete command writes a document without the node's comment
  fields, kind fields and split pin arrays. On a call node the command's serializer has
  none of \<open>node_type\<close>, \<open>function_name\<close>, \<open>function_class\<close>, \<open>function_class_path\<close> and
  \<open>is_pure\<close>, and on a pin none of the flags \<open>is_array\<close>, \<open>is_reference\<close> and
  \<open>is_const\<close>.
\<close>

theorem delete_command_backup_drops_fields:
  "Delete_SerializeGraph ex_host (Some 1) True \<noteq> SerializeGraph ex_host (Some 1) True \<and>
   FindGraphToDelete ex_host 0 ''DoThing'' = Some 1 \<and>
   map (GetField ''graph_data'' \<circ> snd)
       (Files (snd (HandleDeleteBlueprintFunction ex_host (ex_delete ''DoThing'')))) =
     [Some (JObject
        [(''name'', JString ''DoThing''), (''class'', JString ''EdGraph''),
         (''node_count'', JNumber 1),
         (''nodes'', JArray
            [JObject
               [(''guid'', JString ''N4''), (''class'', JString ''K2Node_FunctionEntry''),
                (''title'', JString ''K2Node_FunctionEntry''),
                (''pos_x'', JNumber 0), (''pos_y'', JNumber 0),
                (''comment'', JString []), (''comment_bubble_visible'', JBool False),
                (''node_type'', JString ''FunctionEntry''),
                (''input_pins'', JArray []), (''output_pins'', JArray [])]])])] \<and>
   map (GetField ''graph_data'' \<circ> snd)
       (Files (snd (DeleteBlueprintFunctionCommand_Execute ex_host
                      (Some (ex_delete ''DoThing''))))) =
     [Some (JObject
        [(''name'', JString ''DoThing''), (''class'', JString ''EdGraph''),
         (''node_count'', JNumber 1),
         (''nodes'', JArray
            [JObject
               [(''guid'', JString ''N4''), (''class'', JString ''K2Node_FunctionEntry''),
                (''title'', JString ''K2Node_FunctionEntry''),
                (''pos_x'', JNumber 0), (''pos_y'', JNumber 0),
                (''pins'', JArray [])]])])] \<and>
   map_option FieldNames (SerializeNode ex_host (Some 1)) =
     Some [''guid'', ''class'', ''title'', ''pos_x'', ''pos_y'', ''comment'',
           ''comment_bubble_visible'', ''node_type'', ''function_name'', ''function_class'',
           ''function_class_path'', ''is_pure'', ''input_pins'', ''output_pins''] \<and>
   map_option FieldNames (Delete_SerializeNode ex_host (Some 1)) =
     Some [''guid'', ''class'', ''title'', ''pos_x'', ''pos_y'', ''pins''] \<and>
   map_option FieldNames
       (SerializePin ex_host
          (Some (ex_pin ''then'' EGPD_Output [Some \<lparr>OwningNode = Some 1, LinkedPinName = ''execute''\<rparr>]))
          True) =
     Some [''name'', ''direction'', ''category'', ''is_array'', ''is_reference'', ''is_const'',
           ''connections''] \<and>
   map_option FieldNames
       (Delete_SerializePin ex_host
          (Some (ex_pin ''then'' EGPD_Output [Some \<lparr>OwningNode = Some 1, LinkedPinName = ''execute''\<rparr>]))
          True) =
     Some [''name'', ''direction'', ''category'', ''connections'']"
  by code_simp


section \<open>Redirect: discovery and apply\<close>

lemma CallsFunction_None [simp]: "\<not> CallsFunction h src None"
  by (simp add: CallsFunction_def CastCallFunction_def)

lemma Discover_nodes_fst:
  "fst (Discover_nodes h G src C f ns (as, cs)) = as @ NonNull (filter (CallsFunction h src) ns)"
proof (induction ns arbitrary: as cs)
  case Nil
  then show ?case by simp
next
  case (Cons n ns)
  show ?case
  proof (cases n)
    case None
    then show ?thesis using Cons.IH by (simp add: CastCallFunction_def)
  next
    case (Some a)
    then show ?thesis
      using Cons.IH
      by (auto simp: CallsFunction_def CastCallFunction_def split: k2node.splits option.splits)
  qed
qed

lemma Discover_graphs_fst:
  "fst (Discover_graphs h src C f gs found) = fst found @ Discovered h src gs"
proof (induction gs arbitrary: found)
  case Nil
  then show ?case by simp
next
  case (Cons g gs)
  obtain as cs where found: "found = (as, cs)" by (cases found)
  show ?case
  proof (cases g)
    case None
    then show ?thesis using Cons.IH by simp
  next
    case (Some a)
    then show ?thesis
      using Cons.IH[of "Discover_nodes h (GraphStore h a) src C f (Nodes (GraphStore h a)) (as, cs)"]
      by (simp add: found Discover_nodes_fst)
  qed
qed

lemma NonNull_mem: "a \<in> set (NonNull xs) \<longleftrightarrow> Some a \<in> set xs"
  by (induction xs rule: NonNull.induct) auto

lemma mem_Discovered:
  "a \<in> set (Discovered h src gs) \<longleftrightarrow>
     (\<exists>g. Some g \<in> set gs \<and> Some a \<in> set (Nodes (GraphStore h g)) \<and> CallsFunction h src (Some a))"
  by (induction gs) (auto simp: NonNull_mem split: option.splits)

lemma Discovered_Nil_iff:
  "Discovered h src gs = [] \<longleftrightarrow>
     (\<forall>g a. Some g \<in> set gs \<longrightarrow> Some a \<in> set (Nodes (GraphStore h g)) \<longrightarrow>
            \<not> CallsFunction h src (Some a))"
proof -
  have "Discovered h src gs = [] \<longleftrightarrow> (\<forall>a. a \<notin> set (Discovered h src gs))"
    by (cases "Discovered h src gs") auto
  then show ?thesis
    by (auto simp: mem_Discovered)
qed

lemma SetFromFunction_idem [simp]:
  "SetFromFunction f (SetFromFunction f N) = SetFromFunction f N"
  by (cases "NodeKind N") (simp_all add: SetFromFunction_def)

lemma ApplyRedirects_NodeStore:
  "NodeStore (fst (ApplyRedirects f ns (h, c))) a =
     (if a \<in> set ns then SetFromFunction f (NodeStore h a) else NodeStore h a)"
  by (induction ns arbitrary: h c) (simp_all add: Let_def)

lemma ApplyRedirects_frame:
  "SameSubject h (fst (ApplyRedirects f ns (h, c)))"
  "Files (fst (ApplyRedirects f ns (h, c))) = Files h"
  "Events (fst (ApplyRedirects f ns (h, c))) = Events h @ map NodeModify ns"
proof -
  show "SameSubject h (fst (ApplyRedirects f ns (h, c)))"
    by (induction ns arbitrary: h c) (simp_all add: Let_def SameSubject_def)
  show "Files (fst (ApplyRedirects f ns (h, c))) = Files h"
    by (induction ns arbitrary: h c) (simp_all add: Let_def)
  show "Events (fst (ApplyRedirects f ns (h, c))) = Events h @ map NodeModify ns"
    by (induction ns arbitrary: h c) (simp_all add: Let_def)
qed

lemma GetExportDirectory_frame [simp]:
  "SameSubject h (snd (GetExportDirectory h))"
  "NodeStore (snd (GetExportDirectory h)) = NodeStore h"
  "BlueprintStore (snd (GetExportDirectory h)) = BlueprintStore h"
  "GraphStore (snd (GetExportDirectory h)) = GraphStore h"
  "Events (snd (GetExportDirectory h)) = Events h"
  "Files (snd (GetExportDirectory h)) = Files h"
  "FileWritable (snd (GetExportDirectory h)) = FileWritable h"
  by (simp_all add: GetExportDirectory_def Let_def SameSubject_def)

lemma WriteJsonToTempFile_cases:
  "WriteJsonToTempFile h fn js = ([], snd (GetExportDirectory h)) \<or>
   (\<exists>path. path \<noteq> [] \<and> FileWritable h path \<and>
      WriteJsonToTempFile h fn js =
        (path, (snd (GetExportDirectory h))
                 \<lparr>Files := Files h @ [(path, js)]\<rparr>))"
  by (auto simp: WriteJsonToTempFile_def GetExportDirectory_def Let_def PathsCombine_def)

lemma WriteJsonToTempFile_frame [simp]:
  "SameSubject h (snd (WriteJsonToTempFile h fn js))"
  "NodeStore (snd (WriteJsonToTempFile h fn js)) = NodeStore h"
  "BlueprintStore (snd (WriteJsonToTempFile h fn js)) = BlueprintStore h"
  "GraphStore (snd (WriteJsonToTempFile h fn js)) = GraphStore h"
  "Events (snd (WriteJsonToTempFile h fn js)) = Events h"
  using WriteJsonToTempFile_cases[of h fn js] GetExportDirectory_frame(1)[of h]
  by (auto simp: SameSubject_def)



lemma SameSubject_refl [simp]: "SameSubject h h"
  by (simp add: SameSubject_def)

lemma SameSubject_trans: "SameSubject h h1 \<Longrightarrow> SameSubject h1 h2 \<Longrightarrow> SameSubject h h2"
  by (simp add: SameSubject_def)

lemma SameSubject_Events [simp]: "SameSubject h (h1\<lparr>Events := es\<rparr>) = SameSubject h h1"
  by (simp add: SameSubject_def)

lemma SameSubject_loaders:
  assumes "SameSubject h h'"
  shows "Dispatcher_LoadBlueprint h' = Dispatcher_LoadBlueprint h"
    and "Command_LoadBlueprint h' = Command_LoadBlueprint h"
    and "FindTargetClass h' = FindTargetClass h"
    and "FindFunctionByName h' = FindFunctionByName h"
    and "BlueprintStore h' = BlueprintStore h"
    and "GraphStore h' = GraphStore h"
  using assms
  by (auto simp: SameSubject_def Dispatcher_LoadBlueprint_def Command_LoadBlueprint_def
      FindTargetClass_def intro!: ext split: option.splits list.splits)

lemma body_nodes_found:
  "GetField ''nodes_found'' (fst (RedirectFunctionCall_body h sb src C f dry bk R)) =
     Some (JNumber (int (length (Discovered h src (AllGraphs (BlueprintStore h sb))))))"
  using Discover_graphs_fst[of h src C f "AllGraphs (BlueprintStore h sb)" "([], [])"]
  by (simp add: RedirectFunctionCall_body_def Let_def case_prod_beta SetXField_defs)

lemma body_nodes_redirected:
  assumes "GetField ''nodes_redirected'' R = None"
  shows "GetField ''nodes_redirected'' (fst (RedirectFunctionCall_body h sb src C f dry bk R)) =
     (if Discovered h src (AllGraphs (BlueprintStore h sb)) = [] \<or> dry then None
      else Some (JNumber (int (length (Discovered h src (AllGraphs (BlueprintStore h sb)))))))"
  using Discover_graphs_fst[of h src C f "AllGraphs (BlueprintStore h sb)" "([], [])"] assms
    ApplyRedirects_count[of f "Discovered h src (AllGraphs (BlueprintStore h sb))" _ 0]
  by (simp add: RedirectFunctionCall_body_def Let_def case_prod_beta SetXField_defs)

lemma body_apply_host:
  assumes "Discovered h src (AllGraphs (BlueprintStore h sb)) \<noteq> []"
  shows "SameSubject h (snd (RedirectFunctionCall_body h sb src C f False bk R))"
    and "NodeStore (snd (RedirectFunctionCall_body h sb src C f False bk R)) =
           (\<lambda>a. if a \<in> set (Discovered h src (AllGraphs (BlueprintStore h sb)))
                then SetFromFunction f (NodeStore h a) else NodeStore h a)"
    and "MarkBlueprintAsModified sb \<in> set (Events (snd (RedirectFunctionCall_body h sb src C f False bk R)))"
proof -
  let ?ns = "Discovered h src (AllGraphs (BlueprintStore h sb))"
  have d: "fst (Discover_graphs h src C f (AllGraphs (BlueprintStore h sb)) ([], [])) = ?ns"
    using Discover_graphs_fst[of h src C f "AllGraphs (BlueprintStore h sb)" "([], [])"] by simp
  show "SameSubject h (snd (RedirectFunctionCall_body h sb src C f False bk R))"
    using assms
    by (auto simp: RedirectFunctionCall_body_def Let_def case_prod_beta d
        intro: SameSubject_trans[OF _ ApplyRedirects_frame(1)])
  show "NodeStore (snd (RedirectFunctionCall_body h sb src C f False bk R)) =
           (\<lambda>a. if a \<in> set ?ns then SetFromFunction f (NodeStore h a) else NodeStore h a)"
    using assms
    by (auto simp: RedirectFunctionCall_body_def Let_def case_prod_beta d ApplyRedirects_NodeStore
        fun_eq_iff)
  show "MarkBlueprintAsModified sb \<in> set (Events (snd (RedirectFunctionCall_body h sb src C f False bk R)))"
    using assms
    by (auto simp: RedirectFunctionCall_body_def Let_def case_prod_beta d)
qed

lemma rediscover_empty:
  assumes g: "GraphStore h' = GraphStore h"
    and n: "NodeStore h' =
           (\<lambda>a. if a \<in> set (Discovered h src gs)
                then SetFromFunction f (NodeStore h a) else NodeStore h a)"
    and differs: "\<not> FStringEq (FunctionName f) src"
  shows "Discovered h' src gs = []"
proof -
  have "\<not> CallsFunction h' src (Some a)"
    if mem: "Some g0 \<in> set gs" "Some a \<in> set (Nodes (GraphStore h' g0))" for g0 a
  proof (cases "a \<in> set (Discovered h src gs)")
    case True
    then have "CallsFunction h src (Some a)"
      by (auto simp: mem_Discovered)
    then obtain T p where k: "NodeKind (NodeStore h a) = K2Node_CallFunction T p"
      by (auto simp: CallsFunction_def CastCallFunction_def split: k2node.splits)
    have "NodeStore h' a = SetFromFunction f (NodeStore h a)"
      using True by (simp add: n)
    then show ?thesis
      using k differs by (simp add: CallsFunction_def CastCallFunction_def SetFromFunction_def)
  next
    case False
    then have same: "NodeStore h' a = NodeStore h a"
      by (simp add: n)
    have "\<not> CallsFunction h src (Some a)"
      using False mem g by (auto simp: mem_Discovered)
    then show ?thesis
      using same by (simp add: CallsFunction_def CastCallFunction_def)
  qed
  then show ?thesis
    by (simp add: Discovered_Nil_iff)
qed

lemma body_rediscover:
  assumes differs: "\<not> FStringEq (FunctionName f) src"
    and R: "GetField ''nodes_redirected'' R = None"
    and applied: "GetField ''nodes_redirected'' (fst (RedirectFunctionCall_body h sb src C f dry bk R)) \<noteq> None"
  shows "SameSubject h (snd (RedirectFunctionCall_body h sb src C f dry bk R))"
    and "GetField ''nodes_found''
           (fst (RedirectFunctionCall_body (snd (RedirectFunctionCall_body h sb src C f dry bk R))
                   sb src C f dry' bk' R')) = Some (JNumber 0)"
proof -
  let ?ns = "Discovered h src (AllGraphs (BlueprintStore h sb))"
  let ?h' = "snd (RedirectFunctionCall_body h sb src C f dry bk R)"
  from applied have ne: "?ns \<noteq> []" and dry: "\<not> dry"
    by (auto simp: body_nodes_redirected[OF R] split: if_splits)
  from dry have dryF: "dry = False" by simp
  show same: "SameSubject h ?h'"
    using body_apply_host(1)[OF ne] by (simp add: dryF)
  have n: "NodeStore ?h' = (\<lambda>a. if a \<in> set ?ns then SetFromFunction f (NodeStore h a) else NodeStore h a)"
    using body_apply_host(2)[OF ne] by (simp add: dryF)
  have "Discovered ?h' src (AllGraphs (BlueprintStore h sb)) = []"
    by (rule rediscover_empty[OF SameSubject_loaders(6)[OF same] n differs])
  then show "GetField ''nodes_found''
           (fst (RedirectFunctionCall_body ?h' sb src C f dry' bk' R')) = Some (JNumber 0)"
    by (simp add: body_nodes_found SameSubject_loaders(5)[OF same])
qed

lemma Handle_redirect_body:
  assumes "TryGetStringField Params ''source_blueprint'' = Some path"
    and "TryGetStringField Params ''source_function'' = Some SourceFunction"
    and "TryGetStringField Params ''target_class'' = Some TargetClass"
    and "TryGetStringField Params ''target_function'' = Some TargetFunction"
    and "Dispatcher_LoadBlueprint h path = Some sb"
    and "FindTargetClass h TargetClass = Some NewTargetClass"
    and "FindFunctionByName h NewTargetClass TargetFunction = Some NewFunction"
  shows "HandleRedirectFunctionCall h Params =
      RedirectFunctionCall_body h sb SourceFunction NewTargetClass NewFunction
        (TryGetBoolField Params ''dry_run'' True) (TryGetBoolField Params ''backup'' True) []"
  using assms by (simp add: HandleRedirectFunctionCall_def)

lemma Handle_rediscover:
  assumes src: "TryGetStringField Params ''source_function'' = Some SourceFunction"
    and tc: "TryGetStringField Params ''target_class'' = Some TargetClass"
    and tf: "TryGetStringField Params ''target_function'' = Some TargetFunction"
    and cls: "FindTargetClass h TargetClass = Some NewTargetClass"
    and fn: "FindFunctionByName h NewTargetClass TargetFunction = Some NewFunction"
    and differs: "\<not> FStringEq (FunctionName NewFunction) SourceFunction"
    and applied: "GetField ''nodes_redirected'' (fst (HandleRedirectFunctionCall h Params)) \<noteq> None"
    and same: "StringFields Params' = StringFields Params"
  shows "GetField ''nodes_found''
           (fst (HandleRedirectFunctionCall (snd (HandleRedirectFunctionCall h Params)) Params'))
         = Some (JNumber 0)"
proof -
  obtain path where path: "TryGetStringField Params ''source_blueprint'' = Some path"
    using applied by (cases "TryGetStringField Params ''source_blueprint''")
      (auto simp: HandleRedirectFunctionCall_def)
  obtain sb where sb: "Dispatcher_LoadBlueprint h path = Some sb"
    using applied path src tc tf by (cases "Dispatcher_LoadBlueprint h path")
      (auto simp: HandleRedirectFunctionCall_def)
  let ?dry = "TryGetBoolField Params ''dry_run'' True"
  let ?bk = "TryGetBoolField Params ''backup'' True"
  have first: "HandleRedirectFunctionCall h Params =
      RedirectFunctionCall_body h sb SourceFunction NewTargetClass NewFunction ?dry ?bk []"
    by (rule Handle_redirect_body[OF path src tc tf sb cls fn])
  let ?h' = "snd (HandleRedirectFunctionCall h Params)"
  have R: "GetField ''nodes_redirected'' [] = None" by simp
  have applied': "GetField ''nodes_redirected''
      (fst (RedirectFunctionCall_body h sb SourceFunction NewTargetClass NewFunction ?dry ?bk [])) \<noteq> None"
    using applied by (simp add: first)
  note b = body_rediscover[OF differs R applied']
  have ss: "SameSubject h ?h'"
    using b(1) by (simp add: first)
  have p': "TryGetStringField Params' k = TryGetStringField Params k" for k
    by (simp add: TryGetStringField_def same)
  have sb': "Dispatcher_LoadBlueprint ?h' path = Some sb"
    by (simp only: SameSubject_loaders(1)[OF ss] sb)
  have cls': "FindTargetClass ?h' TargetClass = Some NewTargetClass"
    by (simp only: SameSubject_loaders(3)[OF ss] cls)
  have fn': "FindFunctionByName ?h' NewTargetClass TargetFunction = Some NewFunction"
    by (simp only: SameSubject_loaders(4)[OF ss] fn)
  have second: "HandleRedirectFunctionCall ?h' Params' =
      RedirectFunctionCall_body ?h' sb SourceFunction NewTargetClass NewFunction
        (TryGetBoolField Params' ''dry_run'' True) (TryGetBoolField Params' ''backup'' True) []"
    by (rule Handle_redirect_body[OF _ _ _ _ sb' cls' fn']) (simp_all only: p' path src tc tf)
  have "GetField ''nodes_found''
     (fst (RedirectFunctionCall_body ?h' sb SourceFunction NewTargetClass NewFunction
        (TryGetBoolField Params' ''dry_run'' True) (TryGetBoolField Params' ''backup'' True) []))
     = Some (JNumber 0)"
    using b(2) by (simp only: first)
  then show ?thesis
    by (simp only: second)
qed

lemma Execute_redirect_body:
  assumes "TryGetStringField Params ''source_blueprint'' = Some path"
    and "TryGetStringField Params ''source_function'' = Some SourceFunction"
    and "TryGetStringField Params ''target_class'' = Some TargetClass"
    and "TryGetStringField Params ''target_function'' = Some TargetFunction"
    and "Command_LoadBlueprint h path = Some sb"
    and "FindTargetClass h TargetClass = Some NewTargetClass"
    and "FindFunctionByName h NewTargetClass TargetFunction = Some NewFunction"
  shows "RedirectFunctionCallCommand_Execute h (Some Params) =
      RedirectFunctionCall_body h sb SourceFunction NewTargetClass NewFunction
        (TryGetBoolField Params ''dry_run'' True) (TryGetBoolField Params ''backup'' True)
        (SetBoolField ''success'' True [])"
  using assms by (simp add: RedirectFunctionCallCommand_Execute_def)

lemma Execute_rediscover:
  assumes src: "TryGetStringField Params ''source_function'' = Some SourceFunction"
    and tc: "TryGetStringField Params ''target_class'' = Some TargetClass"
    and tf: "TryGetStringField Params ''target_function'' = Some TargetFunction"
    and cls: "FindTargetClass h TargetClass = Some NewTargetClass"
    and fn: "FindFunctionByName h NewTargetClass TargetFunction = Some NewFunction"
    and differs: "\<not> FStringEq (FunctionName NewFunction) SourceFunction"
    and applied: "GetField ''nodes_redirected'' (fst (RedirectFunctionCallCommand_Execute h (Some Params))) \<noteq> None"
    and same: "StringFields Params' = StringFields Params"
  shows "GetField ''nodes_found''
           (fst (RedirectFunctionCallCommand_Execute (snd (RedirectFunctionCallCommand_Execute h (Some Params))) (Some Params')))
         = Some (JNumber 0)"
proof -
  obtain path where path: "TryGetStringField Params ''source_blueprint'' = Some path"
    using applied by (cases "TryGetStringField Params ''source_blueprint''")
      (auto simp: RedirectFunctionCallCommand_Execute_def)
  obtain sb where sb: "Command_LoadBlueprint h path = Some sb"
    using applied path src tc tf by (cases "Command_LoadBlueprint h path")
      (auto simp: RedirectFunctionCallCommand_Execute_def)
  let ?dry = "TryGetBoolField Params ''dry_run'' True"
  let ?bk = "TryGetBoolField Params ''backup'' True"
  have first: "RedirectFunctionCallCommand_Execute h (Some Params) =
      RedirectFunctionCall_body h sb SourceFunction NewTargetClass NewFunction ?dry ?bk (SetBoolField ''success'' True [])"
    by (rule Execute_redirect_body[OF path src tc tf sb cls fn])
  let ?h' = "snd (RedirectFunctionCallCommand_Execute h (Some Params))"
  have R: "GetField ''nodes_redirected'' (SetBoolField ''success'' True []) = None"
    by (simp add: SetBoolField_def)
  have applied': "GetField ''nodes_redirected''
      (fst (RedirectFunctionCall_body h sb SourceFunction NewTargetClass NewFunction ?dry ?bk (SetBoolField ''success'' True []))) \<noteq> None"
    using applied by (simp add: first)
  note b = body_rediscover[OF differs R applied']
  have ss: "SameSubject h ?h'"
    using b(1) by (simp add: first)
  have p': "TryGetStringField Params' k = TryGetStringField Params k" for k
    by (simp add: TryGetStringField_def same)
  have sb': "Command_LoadBlueprint ?h' path = Some sb"
    by (simp only: SameSubject_loaders(2)[OF ss] sb)
  have cls': "FindTargetClass ?h' TargetClass = Some NewTargetClass"
    by (simp only: SameSubject_loaders(3)[OF ss] cls)
  have fn': "FindFunctionByName ?h' NewTargetClass TargetFunction = Some NewFunction"
    by (simp only: SameSubject_loaders(4)[OF ss] fn)
  have second: "RedirectFunctionCallCommand_Execute ?h' (Some Params') =
      RedirectFunctionCall_body ?h' sb SourceFunction NewTargetClass NewFunction
        (TryGetBoolField Params' ''dry_run'' True) (TryGetBoolField Params' ''backup'' True) (SetBoolField ''success'' True [])"
    by (rule Execute_redirect_body[OF _ _ _ _ sb' cls' fn']) (simp_all only: p' path src tc tf)
  have "GetField ''nodes_found''
     (fst (RedirectFunctionCall_body ?h' sb SourceFunction NewTargetClass NewFunction
        (TryGetBoolField Params' ''dry_run'' True) (TryGetBoolField Params' ''backup'' True) (SetBoolField ''success'' True [])))
     = Some (JNumber 0)"
    using b(2) by (simp only: first)
  then show ?thesis
    by (simp only: second)
qed

text \<open>
  C4, as amended. Discovery matches call nodes by the name of the resolved function
  alone. So if an apply has run (the response reports \<open>nodes_redirected\<close>) and the name
  of the resolved target function differs from \<open>source_function\<close> (compared without
  regard to case, as the code compares), then a following request with the same string
  fields on the resulting host reports \<open>nodes_found = 0\<close>. This holds for the
  dispatcher's handler and for the command.
\<close>

theorem redirect_then_rediscover_finds_nothing:
  assumes "TryGetStringField Params ''source_function'' = Some SourceFunction"
    and "TryGetStringField Params ''target_class'' = Some TargetClass"
    and "TryGetStringField Params ''target_function'' = Some TargetFunction"
    and "FindTargetClass h TargetClass = Some NewTargetClass"
    and "FindFunctionByName h NewTargetClass TargetFunction = Some NewFunction"
    and "\<not> FStringEq (FunctionName NewFunction) SourceFunction"
    and "StringFields Params' = StringFields Params"
  shows
    "(GetField ''nodes_redirected'' (fst (HandleRedirectFunctionCall h Params)) \<noteq> None \<longrightarrow>
        GetField ''nodes_found''
          (fst (HandleRedirectFunctionCall (snd (HandleRedirectFunctionCall h Params)) Params'))
        = Some (JNumber 0)) \<and>
     (GetField ''nodes_redirected'' (fst (RedirectFunctionCallCommand_Execute h (Some Params))) \<noteq> None \<longrightarrow>
        GetField ''nodes_found''
          (fst (RedirectFunctionCallCommand_Execute
                  (snd (RedirectFunctionCallCommand_Execute h (Some Params))) (Some Params')))
        = Some (JNumber 0))"
  using Handle_rediscover[OF assms(1-6) _ assms(7)] Execute_rediscover[OF assms(1-6) _ assms(7)]
  by blast


theorem redirect_then_rediscover_finds_nothing_witness:
  "TryGetStringField (ex_redirect ''NewFunc'' False) ''source_function'' = Some ''OldFunc'' \<and>
   FindFunctionByName ex_host ex_NewClass ''NewFunc'' = Some ex_NewFunc \<and>
   \<not> FStringEq (FunctionName ex_NewFunc) ''OldFunc'' \<and>
   GetField ''nodes_redirected'' (fst (HandleRedirectFunctionCall ex_host (ex_redirect ''NewFunc'' False)))
     = Some (JNumber 2) \<and>
   GetField ''nodes_found''
     (fst (HandleRedirectFunctionCall
             (snd (HandleRedirectFunctionCall ex_host (ex_redirect ''NewFunc'' False)))
             (ex_redirect ''NewFunc'' True)))
     = Some (JNumber 0)"
proof -
  have a1: "TryGetStringField (ex_redirect ''NewFunc'' False) ''source_function'' = Some ''OldFunc''"
    by code_simp
  have a2: "TryGetStringField (ex_redirect ''NewFunc'' False) ''target_class'' = Some ''NewClass''"
    by code_simp
  have a3: "TryGetStringField (ex_redirect ''NewFunc'' False) ''target_function'' = Some ''NewFunc''"
    by code_simp
  have a4: "FindTargetClass ex_host ''NewClass'' = Some ex_NewClass"
    by code_simp
  have a5: "FindFunctionByName ex_host ex_NewClass ''NewFunc'' = Some ex_NewFunc"
    by code_simp
  have a6: "\<not> FStringEq (FunctionName ex_NewFunc) ''OldFunc''"
    by code_simp
  have a7: "StringFields (ex_redirect ''NewFunc'' True) = StringFields (ex_redirect ''NewFunc'' False)"
    by (simp add: ex_redirect_def ex_params_def)
  have r: "GetField ''nodes_redirected''
      (fst (HandleRedirectFunctionCall ex_host (ex_redirect ''NewFunc'' False))) = Some (JNumber 2)"
    by code_simp
  from redirect_then_rediscover_finds_nothing [OF a1 a2 a3 a4 a5 a6 a7] r a1 a5 a6
  show ?thesis by simp
qed


lemma CastCallFunction_cong:
  assumes "NodeStore h' = NodeStore h"
  shows "CastCallFunction h' n = CastCallFunction h n"
  by (cases n) (simp_all add: CastCallFunction_def assms)

lemma CallsFunction_cong:
  assumes "NodeStore h' = NodeStore h"
  shows "CallsFunction h' src = CallsFunction h src"
  by (rule ext) (simp add: CallsFunction_def CastCallFunction_cong[OF assms])

lemma Discovered_cong:
  assumes "GraphStore h' = GraphStore h" and "NodeStore h' = NodeStore h"
  shows "Discovered h' src gs = Discovered h src gs"
  by (induction gs) (simp_all add: assms(1) CallsFunction_cong[OF assms(2)] split: option.splits)

text \<open>
  C4, as stated, fails when the resolved target function has the name of the source
  function: redirecting \<open>OldFunc\<close> to \<open>NewClass::OldFunc\<close> succeeds on both discovered
  nodes, and the following discovery pass for \<open>OldFunc\<close> finds the same two nodes again,
  since discovery compares the name of the function and not its owner.
\<close>

theorem rediscovery_finds_redirected_calls_counterexample:
  "GetField ''nodes_found''
     (fst (HandleRedirectFunctionCall ex_host (ex_redirect ''OldFunc'' False))) = Some (JNumber 2) \<and>
   GetField ''nodes_redirected''
     (fst (HandleRedirectFunctionCall ex_host (ex_redirect ''OldFunc'' False))) = Some (JNumber 2) \<and>
   FunctionKey ex_NativeOldFunc = ''NewClass::OldFunc'' \<and>
   GetField ''nodes_found''
     (fst (HandleRedirectFunctionCall
             (snd (HandleRedirectFunctionCall ex_host (ex_redirect ''OldFunc'' False)))
             (ex_redirect ''OldFunc'' True))) = Some (JNumber 2)"
proof -
  let ?h' = "snd (HandleRedirectFunctionCall ex_host (ex_redirect ''OldFunc'' False))"
  have found: "GetField ''nodes_found''
     (fst (HandleRedirectFunctionCall ex_host (ex_redirect ''OldFunc'' False))) = Some (JNumber 2)"
    by code_simp
  have redirected: "GetField ''nodes_redirected''
     (fst (HandleRedirectFunctionCall ex_host (ex_redirect ''OldFunc'' False))) = Some (JNumber 2)"
    by code_simp
  have key: "FunctionKey ex_NativeOldFunc = ''NewClass::OldFunc''"
    by code_simp
  have p: "TryGetStringField (ex_redirect ''OldFunc'' dry) ''source_blueprint'' = Some ''/Game/BP_Player''"
    "TryGetStringField (ex_redirect ''OldFunc'' dry) ''source_function'' = Some ''OldFunc''"
    "TryGetStringField (ex_redirect ''OldFunc'' dry) ''target_class'' = Some ''NewClass''"
    "TryGetStringField (ex_redirect ''OldFunc'' dry) ''target_function'' = Some ''OldFunc''" for dry
    by (simp_all add: ex_redirect_def ex_params_def TryGetStringField_def)
  have dry: "TryGetBoolField (ex_redirect ''OldFunc'' False) ''dry_run'' True = False"
    by code_simp
  have sb: "Dispatcher_LoadBlueprint ex_host ''/Game/BP_Player'' = Some 0"
    by code_simp
  have cls: "FindTargetClass ex_host ''NewClass'' = Some ex_NewClass"
    by code_simp
  have fn: "FindFunctionByName ex_host ex_NewClass ''OldFunc'' = Some ex_NativeOldFunc"
    by code_simp
  have graphs: "AllGraphs (BlueprintStore ex_host 0) = [Some 1, Some 0]"
    by code_simp
  have disc: "Discovered ex_host ''OldFunc'' (AllGraphs (BlueprintStore ex_host 0)) = [1, 2]"
    by code_simp
  then have ne: "Discovered ex_host ''OldFunc'' (AllGraphs (BlueprintStore ex_host 0)) \<noteq> []"
    by simp
  have first: "HandleRedirectFunctionCall ex_host (ex_redirect ''OldFunc'' False) =
      RedirectFunctionCall_body ex_host 0 ''OldFunc'' ex_NewClass ex_NativeOldFunc False
        (TryGetBoolField (ex_redirect ''OldFunc'' False) ''backup'' True) []"
    using Handle_redirect_body[OF p sb cls fn, of False] by (simp only: dry)
  have ss: "SameSubject ex_host ?h'"
    using body_apply_host(1)[OF ne] by (simp only: first)
  have ns: "NodeStore ?h' = NodeStore ex_redirected_host"
    using body_apply_host(2)[OF ne, where C=ex_NewClass and f=ex_NativeOldFunc and R="[]"
        and bk="TryGetBoolField (ex_redirect ''OldFunc'' False) ''backup'' True"]
    by (simp only: first disc) (simp add: ex_redirected_host_def)
  have gs: "GraphStore ?h' = GraphStore ex_redirected_host"
    using SameSubject_loaders(6)[OF ss] by (simp add: ex_redirected_host_def)
  have sb': "Dispatcher_LoadBlueprint ?h' ''/Game/BP_Player'' = Some 0"
    by (simp only: SameSubject_loaders(1)[OF ss] sb)
  have cls': "FindTargetClass ?h' ''NewClass'' = Some ex_NewClass"
    by (simp only: SameSubject_loaders(3)[OF ss] cls)
  have fn': "FindFunctionByName ?h' ex_NewClass ''OldFunc'' = Some ex_NativeOldFunc"
    by (simp only: SameSubject_loaders(4)[OF ss] fn)
  have second: "HandleRedirectFunctionCall ?h' (ex_redirect ''OldFunc'' True) =
      RedirectFunctionCall_body ?h' 0 ''OldFunc'' ex_NewClass ex_NativeOldFunc
        (TryGetBoolField (ex_redirect ''OldFunc'' True) ''dry_run'' True)
        (TryGetBoolField (ex_redirect ''OldFunc'' True) ''backup'' True) []"
    by (rule Handle_redirect_body[OF p sb' cls' fn'])
  have again: "Discovered ex_redirected_host ''OldFunc'' [Some 1, Some 0] = [1, 2]"
    by code_simp
  have "Discovered ?h' ''OldFunc'' (AllGraphs (BlueprintStore ?h' 0)) = [1, 2]"
    by (simp only: SameSubject_loaders(5)[OF ss] graphs Discovered_cong[OF gs ns] again)
  then have "GetField ''nodes_found''
     (fst (HandleRedirectFunctionCall ?h' (ex_redirect ''OldFunc'' True))) = Some (JNumber 2)"
    by (simp only: second body_nodes_found) simp
  with found redirected key show ?thesis
    by (intro conjI)
qed


section \<open>Mutations when the backup cannot be written\<close>



lemma RemoveGraph_frame [simp]:
  "Files (RemoveGraph b g h) = Files h"
  "Events (RemoveGraph b g h) = Events h"
  "Some g \<notin> set (AllGraphs (BlueprintStore (RemoveGraph b g h) b))"
  "Some g \<notin> set (FunctionGraphs (BlueprintStore (RemoveGraph b g h) b))"
  by (simp_all add: RemoveGraph_def)






end
